theory Spec2Isabelle
  imports Main "HOL-Library.Sublist" "HOL-Library.Char_ord" "HOL-Library.List_Lexorder"
begin

section \<open>The agent/skill registry and its recommendation engine\<close>

text \<open>
  A shallow embedding of the registry module of workspace-init-mcp: the two static
  catalogs \<open>AGENT_REGISTRY\<close> and \<open>SKILL_REGISTRY\<close> and the three functions
  \<open>recommendAgentSkills\<close>, \<open>searchAgentSkills\<close> and \<open>listCategories\<close> that read them.

  Modelling decisions.
  \<^item> A JavaScript string is a \<open>string\<close>, a list of 8-bit characters: the UTF-8
    encoding of a well-formed string. A substring test on the encodings decides the
    substring test on the strings. The catalog is ASCII except for one dash in one
    description, which is held as its three bytes.
  \<^item> \<open>String.prototype.toLowerCase\<close> converts by the Unicode case tables of the
    runtime, which are no part of the repository. On a string of ASCII characters it
    maps \<open>A\<close>..\<open>Z\<close> to \<open>a\<close>..\<open>z\<close> and leaves the rest, and that is computed here. On
    any other string its result is the runtime's: it is the parameter
    \<open>unicodeLower\<close> of every function that lower-cases, and every property below is
    proved for all values of that parameter.
  \<^item> A JavaScript number that holds an integer is an \<open>int\<close>; fractional caps,
    \<open>NaN\<close> and the infinities are outside the model.
  \<^item> The category types of the source are unions of string literals, so at run time a
    category is a string, and it is one here.
  \<^item> \<open>AgentEntry\<close> and \<open>SkillEntry\<close> have the same fields, and \<open>SkillEntry\<close> has
    \<open>hasResources\<close> in addition: the second record extends the first.
  \<^item> The \<open>summary\<close> text of a result is formatting only and is left out.
\<close>

subsection \<open>Types\<close>

record AgentEntry =
  id_str :: string
  name :: string
  description :: string
  categories :: "string list"
  tags :: "string list"
  relevantProjectTypes :: "string list"
  techKeywords :: "string list"
  priority :: int

record SkillEntry = AgentEntry +
  hasResources :: bool

text \<open>The argument of \<open>recommendAgentSkills\<close>: every field is optional.\<close>

record Options =
  projectType :: "string option"
  techStack :: "string list option"
  userIntent :: "string option"
  maxAgents :: "int option"
  maxSkills :: "int option"

record RecommendationResult =
  agents :: "AgentEntry list"
  skills :: "SkillEntry list"

record CategoryLists =
  agentCategories :: "string list"
  skillCategories :: "string list"

subsection \<open>The JavaScript library functions the module calls\<close>

text \<open>
  \<open>String.prototype.toLowerCase\<close>. \<open>asciiLower\<close> is the conversion of a string of
  ASCII characters. \<open>unicodeLower\<close> stands for the runtime's conversion of the other
  strings; it takes, for one, the Kelvin sign U+212A to \<open>k\<close>.
\<close>

definition lower_char :: "char \<Rightarrow> char" where
  "lower_char c =
     (let n = (of_char c :: nat)
      in if 65 \<le> n \<and> n \<le> 90 then char_of (n + 32) else c)"

definition asciiLower :: "string \<Rightarrow> string" where
  "asciiLower s = map lower_char s"

definition isAscii :: "string \<Rightarrow> bool" where
  "isAscii s = list_all (\<lambda>c. (of_char c :: nat) < 128) s"

definition toLowerCase :: "(string \<Rightarrow> string) \<Rightarrow> string \<Rightarrow> string" where
  "toLowerCase unicodeLower s = (if isAscii s then asciiLower s else unicodeLower s)"

text \<open>
  \<open>String.prototype.includes\<close>: \<open>includes_str s t\<close> is \<open>s.includes(t)\<close>, true when
  \<open>t\<close> starts at some position of \<open>s\<close>.
\<close>

fun startsWith :: "string \<Rightarrow> string \<Rightarrow> bool" where
  "startsWith s [] = True"
| "startsWith [] (c # t) = False"
| "startsWith (a # s) (c # t) = (a = c \<and> startsWith s t)"

fun includes_str :: "string \<Rightarrow> string \<Rightarrow> bool" where
  "includes_str [] t = (t = [])"
| "includes_str (a # s) t = (startsWith (a # s) t \<or> includes_str s t)"

text \<open>\<open>Array.prototype.includes\<close> and \<open>Array.prototype.some\<close>.\<close>

definition includes_arr :: "'a list \<Rightarrow> 'a \<Rightarrow> bool" where
  "includes_arr xs x = (x \<in> set xs)"

definition some :: "'a list \<Rightarrow> ('a \<Rightarrow> bool) \<Rightarrow> bool" where
  "some xs p = list_ex p xs"

text \<open>
  \<open>Array.prototype.sort\<close> with a comparator. ECMAScript (since the 2019 edition)
  requires the sort to be stable, and the package runs on Node.js 18 or later, whose
  sort is. For a comparator that is a consistent ordering, as the two below are, the
  sorted array is then determined: it is the one a stable insertion sort builds.
  \<open>cmp a b \<le> 0\<close> keeps \<open>a\<close> in front of \<open>b\<close>.
\<close>

fun insert_cmp :: "('a \<Rightarrow> 'a \<Rightarrow> int) \<Rightarrow> 'a \<Rightarrow> 'a list \<Rightarrow> 'a list" where
  "insert_cmp cmp x [] = [x]"
| "insert_cmp cmp x (y # ys) =
     (if cmp x y \<le> 0 then x # y # ys else y # insert_cmp cmp x ys)"

definition sort_cmp :: "('a \<Rightarrow> 'a \<Rightarrow> int) \<Rightarrow> 'a list \<Rightarrow> 'a list" where
  "sort_cmp cmp xs = foldr (insert_cmp cmp) xs []"

text \<open>
  The comparator \<open>sort()\<close> uses when it is given none: strings are compared by their
  code units, lexicographically.
\<close>

definition default_cmp :: "string \<Rightarrow> string \<Rightarrow> int" where
  "default_cmp a b = (if a < b then - 1 else if b < a then 1 else 0)"

text \<open>
  \<open>Array.prototype.slice(0, end)\<close>: a negative \<open>end\<close> counts from the end of the
  array, and the result never reaches outside the array.
\<close>

definition slice0 :: "int \<Rightarrow> 'a list \<Rightarrow> 'a list" where
  "slice0 end xs =
     (let len = int (length xs);
          final = (if end < 0 then max (len + end) 0 else min end len)
      in take (nat final) xs)"

text \<open>
  A \<open>Set\<close> keeps its elements in insertion order and ignores the insertion of an
  element it already holds: it is a list without repetitions.
\<close>

definition set_add :: "'a \<Rightarrow> 'a list \<Rightarrow> 'a list" where
  "set_add c s = (if c \<in> set s then s else s @ [c])"

text \<open>A destructuring default: the default stands in for an absent field.\<close>

definition orDefault :: "'a option \<Rightarrow> 'a \<Rightarrow> 'a" where
  "orDefault v d = (case v of None \<Rightarrow> d | Some x \<Rightarrow> x)"

subsection \<open>The agent registry\<close>

definition agent_plan :: AgentEntry where
  "agent_plan = \<lparr>
    id_str = ''plan'',
    name = ''Plan Mode'',
    description = ''Strategic planning and architecture assistant focused on thoughtful analysis before implementation'',
    categories = [''planning''],
    tags = [''planning'', ''strategy'', ''analysis'', ''think-first''],
    relevantProjectTypes = [''*''],
    techKeywords = [],
    priority = 1 \<rparr>"

definition agent_planner :: AgentEntry where
  "agent_planner = \<lparr>
    id_str = ''planner'',
    name = ''Planner'',
    description = ''Task planning and breakdown assistant'',
    categories = [''planning''],
    tags = [''planning'', ''task-breakdown'', ''workflow''],
    relevantProjectTypes = [''*''],
    techKeywords = [],
    priority = 1 \<rparr>"

definition agent_task_planner :: AgentEntry where
  "agent_task_planner = \<lparr>
    id_str = ''task-planner'',
    name = ''Task Planner'',
    description = ''Detailed task planning with dependency tracking'',
    categories = [''planning''],
    tags = [''planning'', ''tasks'', ''dependencies''],
    relevantProjectTypes = [''*''],
    techKeywords = [],
    priority = 2 \<rparr>"

definition agent_context_architect :: AgentEntry where
  "agent_context_architect = \<lparr>
    id_str = ''context-architect'',
    name = ''Context Architect'',
    description = ''Plans and executes multi-file changes by identifying relevant context and dependencies'',
    categories = [''architecture'', ''planning''],
    tags = [''architecture'', ''context-map'', ''dependencies'', ''multi-file''],
    relevantProjectTypes = [''*''],
    techKeywords = [],
    priority = 1 \<rparr>"

definition agent_repo_architect :: AgentEntry where
  "agent_repo_architect = \<lparr>
    id_str = ''repo-architect'',
    name = ''Repo Architect'',
    description = ''Bootstraps and validates agentic project structures for GitHub Copilot workflows'',
    categories = [''architecture'', ''meta''],
    tags = [''scaffolding'', ''repo-structure'', ''agents'', ''skills''],
    relevantProjectTypes = [''*''],
    techKeywords = [],
    priority = 1 \<rparr>"

definition agent_arch :: AgentEntry where
  "agent_arch = \<lparr>
    id_str = ''arch'',
    name = ''Architecture'',
    description = ''Software architecture design and review'',
    categories = [''architecture''],
    tags = [''architecture'', ''design-patterns'', ''system-design''],
    relevantProjectTypes = [''web-app'', ''api'', ''library'', ''monorepo''],
    techKeywords = [],
    priority = 1 \<rparr>"

definition agent_blueprint_mode :: AgentEntry where
  "agent_blueprint_mode = \<lparr>
    id_str = ''blueprint-mode'',
    name = ''Blueprint Mode'',
    description = ''Comprehensive project blueprint generation'',
    categories = [''architecture'', ''planning''],
    tags = [''blueprint'', ''architecture'', ''comprehensive''],
    relevantProjectTypes = [''*''],
    techKeywords = [],
    priority = 2 \<rparr>"

definition agent_implementation_plan :: AgentEntry where
  "agent_implementation_plan = \<lparr>
    id_str = ''implementation-plan'',
    name = ''Implementation Plan'',
    description = ''Detailed implementation planning for features and changes'',
    categories = [''planning''],
    tags = [''implementation'', ''planning'', ''features''],
    relevantProjectTypes = [''*''],
    techKeywords = [],
    priority = 2 \<rparr>"

definition agent_principal_software_engineer :: AgentEntry where
  "agent_principal_software_engineer = \<lparr>
    id_str = ''principal-software-engineer'',
    name = ''Principal Software Engineer'',
    description = ''Principal-level engineering guidance with focus on engineering excellence and pragmatic implementation'',
    categories = [''engineering'', ''review''],
    tags = [''best-practices'', ''clean-code'', ''solid'', ''design-patterns'', ''tech-debt''],
    relevantProjectTypes = [''*''],
    techKeywords = [],
    priority = 1 \<rparr>"

definition agent_software_engineer_agent_v1 :: AgentEntry where
  "agent_software_engineer_agent_v1 = \<lparr>
    id_str = ''software-engineer-agent-v1'',
    name = ''Software Engineer Agent'',
    description = ''General-purpose software engineering assistant'',
    categories = [''engineering''],
    tags = [''coding'', ''implementation'', ''general''],
    relevantProjectTypes = [''*''],
    techKeywords = [],
    priority = 2 \<rparr>"

definition agent_expert_nextjs_developer :: AgentEntry where
  "agent_expert_nextjs_developer = \<lparr>
    id_str = ''expert-nextjs-developer'',
    name = ''Expert Next.js Developer'',
    description = ''Specialized Next.js development assistance'',
    categories = [''engineering'', ''frontend''],
    tags = [''nextjs'', ''react'', ''ssr'', ''fullstack''],
    relevantProjectTypes = [''web-app''],
    techKeywords = [''Next.js'', ''React'', ''TypeScript''],
    priority = 2 \<rparr>"

definition agent_expert_react_frontend_engineer :: AgentEntry where
  "agent_expert_react_frontend_engineer = \<lparr>
    id_str = ''expert-react-frontend-engineer'',
    name = ''Expert React Frontend Engineer'',
    description = ''Expert React frontend development'',
    categories = [''engineering'', ''frontend''],
    tags = [''react'', ''frontend'', ''components'', ''state-management''],
    relevantProjectTypes = [''web-app''],
    techKeywords = [''React'', ''TypeScript'', ''JavaScript''],
    priority = 2 \<rparr>"

definition agent_expert_cpp_software_engineer :: AgentEntry where
  "agent_expert_cpp_software_engineer = \<lparr>
    id_str = ''expert-cpp-software-engineer'',
    name = ''Expert C++ Software Engineer'',
    description = ''C++ development expertise'',
    categories = [''engineering''],
    tags = [''cpp'', ''systems'', ''performance''],
    relevantProjectTypes = [''library''],
    techKeywords = [''C++''],
    priority = 3 \<rparr>"

definition agent_expert_dotnet_software_engineer :: AgentEntry where
  "agent_expert_dotnet_software_engineer = \<lparr>
    id_str = ''expert-dotnet-software-engineer'',
    name = ''Expert .NET Software Engineer'',
    description = ''.NET development expertise'',
    categories = [''engineering''],
    tags = [''dotnet'', ''csharp'', ''aspnet''],
    relevantProjectTypes = [''web-app'', ''api''],
    techKeywords = [''.NET'', ''C#'', ''ASP.NET''],
    priority = 2 \<rparr>"

definition agent_api_architect :: AgentEntry where
  "agent_api_architect = \<lparr>
    id_str = ''api-architect'',
    name = ''API Architect'',
    description = ''API design and architecture specialist'',
    categories = [''architecture'', ''backend''],
    tags = [''api'', ''rest'', ''graphql'', ''openapi''],
    relevantProjectTypes = [''api''],
    techKeywords = [],
    priority = 1 \<rparr>"

definition agent_debug :: AgentEntry where
  "agent_debug = \<lparr>
    id_str = ''debug'',
    name = ''Debug Mode'',
    description = ''Systematic debugging with 4-phase approach: assess, investigate, resolve, QA'',
    categories = [''debugging''],
    tags = [''debugging'', ''troubleshooting'', ''root-cause''],
    relevantProjectTypes = [''*''],
    techKeywords = [],
    priority = 1 \<rparr>"

definition agent_playwright_tester :: AgentEntry where
  "agent_playwright_tester = \<lparr>
    id_str = ''playwright-tester'',
    name = ''Playwright Tester'',
    description = ''E2E testing with Playwright'',
    categories = [''testing''],
    tags = [''e2e'', ''playwright'', ''browser-testing''],
    relevantProjectTypes = [''web-app''],
    techKeywords = [''Playwright'', ''TypeScript''],
    priority = 2 \<rparr>"

definition agent_polyglot_test_builder :: AgentEntry where
  "agent_polyglot_test_builder = \<lparr>
    id_str = ''polyglot-test-builder'',
    name = ''Polyglot Test Builder'',
    description = ''Multi-language test generation and management'',
    categories = [''testing''],
    tags = [''testing'', ''polyglot'', ''multi-language''],
    relevantProjectTypes = [''*''],
    techKeywords = [],
    priority = 2 \<rparr>"

definition agent_tdd_red :: AgentEntry where
  "agent_tdd_red = \<lparr>
    id_str = ''tdd-red'',
    name = ''TDD Red Phase'',
    description = ''Write failing tests first (Red phase of TDD)'',
    categories = [''testing''],
    tags = [''tdd'', ''red'', ''test-first''],
    relevantProjectTypes = [''*''],
    techKeywords = [],
    priority = 2 \<rparr>"

definition agent_tdd_green :: AgentEntry where
  "agent_tdd_green = \<lparr>
    id_str = ''tdd-green'',
    name = ''TDD Green Phase'',
    description = ''Make tests pass with minimal code (Green phase of TDD)'',
    categories = [''testing''],
    tags = [''tdd'', ''green'', ''implementation''],
    relevantProjectTypes = [''*''],
    techKeywords = [],
    priority = 2 \<rparr>"

definition agent_tdd_refactor :: AgentEntry where
  "agent_tdd_refactor = \<lparr>
    id_str = ''tdd-refactor'',
    name = ''TDD Refactor Phase'',
    description = ''Refactor code while keeping tests green'',
    categories = [''testing''],
    tags = [''tdd'', ''refactor'', ''clean-code''],
    relevantProjectTypes = [''*''],
    techKeywords = [],
    priority = 2 \<rparr>"

definition agent_devops_expert :: AgentEntry where
  "agent_devops_expert = \<lparr>
    id_str = ''devops-expert'',
    name = ''DevOps Expert'',
    description = ''DevOps specialist following the infinity loop principle with focus on automation'',
    categories = [''devops''],
    tags = [''devops'', ''cicd'', ''automation'', ''monitoring'', ''dora''],
    relevantProjectTypes = [''devops'', ''api'', ''web-app''],
    techKeywords = [''Docker'', ''Kubernetes'', ''Terraform''],
    priority = 1 \<rparr>"

definition agent_platform_sre_kubernetes :: AgentEntry where
  "agent_platform_sre_kubernetes = \<lparr>
    id_str = ''platform-sre-kubernetes'',
    name = ''Platform SRE Kubernetes'',
    description = ''Kubernetes platform engineering and SRE'',
    categories = [''devops'', ''cloud''],
    tags = [''kubernetes'', ''sre'', ''platform'', ''reliability''],
    relevantProjectTypes = [''devops''],
    techKeywords = [''Kubernetes'', ''Docker''],
    priority = 2 \<rparr>"

definition agent_github_actions_expert :: AgentEntry where
  "agent_github_actions_expert = \<lparr>
    id_str = ''github-actions-expert'',
    name = ''GitHub Actions Expert'',
    description = ''GitHub Actions CI/CD pipeline specialist'',
    categories = [''devops''],
    tags = [''github-actions'', ''cicd'', ''workflows''],
    relevantProjectTypes = [''*''],
    techKeywords = [''GitHub Actions''],
    priority = 2 \<rparr>"

definition agent_terraform :: AgentEntry where
  "agent_terraform = \<lparr>
    id_str = ''terraform'',
    name = ''Terraform'',
    description = ''Terraform infrastructure as code specialist'',
    categories = [''devops'', ''cloud''],
    tags = [''terraform'', ''iac'', ''infrastructure''],
    relevantProjectTypes = [''devops''],
    techKeywords = [''Terraform'', ''HCL''],
    priority = 2 \<rparr>"

definition agent_se_technical_writer :: AgentEntry where
  "agent_se_technical_writer = \<lparr>
    id_str = ''se-technical-writer'',
    name = ''Technical Writer'',
    description = ''Technical documentation writing specialist'',
    categories = [''documentation''],
    tags = [''documentation'', ''technical-writing'', ''api-docs''],
    relevantProjectTypes = [''*''],
    techKeywords = [],
    priority = 1 \<rparr>"

definition agent_gem_documentation_writer :: AgentEntry where
  "agent_gem_documentation_writer = \<lparr>
    id_str = ''gem-documentation-writer'',
    name = ''Documentation Writer'',
    description = ''Documentation generation and management'',
    categories = [''documentation''],
    tags = [''documentation'', ''writing'', ''markdown''],
    relevantProjectTypes = [''*''],
    techKeywords = [],
    priority = 2 \<rparr>"

definition agent_gem_reviewer :: AgentEntry where
  "agent_gem_reviewer = \<lparr>
    id_str = ''gem-reviewer'',
    name = ''Code Reviewer'',
    description = ''Code review assistant'',
    categories = [''review''],
    tags = [''code-review'', ''quality'', ''standards''],
    relevantProjectTypes = [''*''],
    techKeywords = [],
    priority = 1 \<rparr>"

definition agent_se_security_reviewer :: AgentEntry where
  "agent_se_security_reviewer = \<lparr>
    id_str = ''se-security-reviewer'',
    name = ''Security Reviewer'',
    description = ''Security-focused code review'',
    categories = [''review'', ''security''],
    tags = [''security'', ''review'', ''vulnerabilities''],
    relevantProjectTypes = [''*''],
    techKeywords = [],
    priority = 2 \<rparr>"

definition agent_se_system_architecture_reviewer :: AgentEntry where
  "agent_se_system_architecture_reviewer = \<lparr>
    id_str = ''se-system-architecture-reviewer'',
    name = ''System Architecture Reviewer'',
    description = ''System architecture review and assessment'',
    categories = [''review'', ''architecture''],
    tags = [''architecture'', ''review'', ''assessment''],
    relevantProjectTypes = [''*''],
    techKeywords = [],
    priority = 2 \<rparr>"

definition agent_critical_thinking :: AgentEntry where
  "agent_critical_thinking = \<lparr>
    id_str = ''critical-thinking'',
    name = ''Critical Thinking'',
    description = ''Challenges assumptions and encourages deeper analysis'',
    categories = [''review''],
    tags = [''critical-thinking'', ''analysis'', ''assumptions''],
    relevantProjectTypes = [''*''],
    techKeywords = [],
    priority = 2 \<rparr>"

definition agent_devils_advocate :: AgentEntry where
  "agent_devils_advocate = \<lparr>
    id_str = ''devils-advocate'',
    name = ''Devil'' @ [CHR 0x27] @ ''s Advocate'',
    description = ''Challenges decisions to strengthen solutions'',
    categories = [''review''],
    tags = [''devils-advocate'', ''challenge'', ''robustness''],
    relevantProjectTypes = [''*''],
    techKeywords = [],
    priority = 3 \<rparr>"

definition agent_prompt_engineer :: AgentEntry where
  "agent_prompt_engineer = \<lparr>
    id_str = ''prompt-engineer'',
    name = ''Prompt Engineer'',
    description = ''Analyzes and improves prompts following OpenAI best practices'',
    categories = [''meta''],
    tags = [''prompt-engineering'', ''optimization'', ''llm''],
    relevantProjectTypes = [''*''],
    techKeywords = [],
    priority = 2 \<rparr>"

definition agent_meta_agentic_project_scaffold :: AgentEntry where
  "agent_meta_agentic_project_scaffold = \<lparr>
    id_str = ''meta-agentic-project-scaffold'',
    name = ''Meta Agentic Project Scaffold'',
    description = ''Meta-agent for pulling and organizing agentic project structures'',
    categories = [''meta''],
    tags = [''meta'', ''scaffolding'', ''agents'', ''organization''],
    relevantProjectTypes = [''*''],
    techKeywords = [],
    priority = 2 \<rparr>"

definition agent_custom_agent_foundry :: AgentEntry where
  "agent_custom_agent_foundry = \<lparr>
    id_str = ''custom-agent-foundry'',
    name = ''Custom Agent Foundry'',
    description = ''Create custom agent definitions'',
    categories = [''meta''],
    tags = [''agent-creation'', ''customization'', ''meta''],
    relevantProjectTypes = [''*''],
    techKeywords = [],
    priority = 3 \<rparr>"

definition agent_typescript_mcp_expert :: AgentEntry where
  "agent_typescript_mcp_expert = \<lparr>
    id_str = ''typescript-mcp-expert'',
    name = ''TypeScript MCP Expert'',
    description = ''TypeScript MCP server development specialist'',
    categories = [''engineering'', ''backend''],
    tags = [''mcp'', ''typescript'', ''server''],
    relevantProjectTypes = [''api'', ''library''],
    techKeywords = [''TypeScript'', ''MCP''],
    priority = 2 \<rparr>"

definition agent_python_mcp_expert :: AgentEntry where
  "agent_python_mcp_expert = \<lparr>
    id_str = ''python-mcp-expert'',
    name = ''Python MCP Expert'',
    description = ''Python MCP server development specialist'',
    categories = [''engineering'', ''backend''],
    tags = [''mcp'', ''python'', ''server''],
    relevantProjectTypes = [''api'', ''data-science''],
    techKeywords = [''Python'', ''MCP''],
    priority = 3 \<rparr>"

definition agent_azure_principal_architect :: AgentEntry where
  "agent_azure_principal_architect = \<lparr>
    id_str = ''azure-principal-architect'',
    name = ''Azure Principal Architect'',
    description = ''Azure cloud architecture and best practices'',
    categories = [''cloud'', ''architecture''],
    tags = [''azure'', ''cloud'', ''architecture'', ''well-architected''],
    relevantProjectTypes = [''devops'', ''api'', ''web-app''],
    techKeywords = [''Azure''],
    priority = 2 \<rparr>"

definition agent_ms_sql_dba :: AgentEntry where
  "agent_ms_sql_dba = \<lparr>
    id_str = ''ms-sql-dba'',
    name = ''MS SQL DBA'',
    description = ''Microsoft SQL Server database administration'',
    categories = [''data''],
    tags = [''sql'', ''database'', ''mssql'', ''dba''],
    relevantProjectTypes = [''api'', ''data-science''],
    techKeywords = [''SQL Server'', ''MSSQL''],
    priority = 3 \<rparr>"

definition agent_postgresql_dba :: AgentEntry where
  "agent_postgresql_dba = \<lparr>
    id_str = ''postgresql-dba'',
    name = ''PostgreSQL DBA'',
    description = ''PostgreSQL database administration and optimization'',
    categories = [''data''],
    tags = [''postgresql'', ''database'', ''optimization''],
    relevantProjectTypes = [''api'', ''data-science''],
    techKeywords = [''PostgreSQL''],
    priority = 3 \<rparr>"

definition agent_electron_angular_native :: AgentEntry where
  "agent_electron_angular_native = \<lparr>
    id_str = ''electron-angular-native'',
    name = ''Electron Angular Native'',
    description = ''Electron with Angular desktop application development'',
    categories = [''frontend'', ''engineering''],
    tags = [''electron'', ''angular'', ''desktop''],
    relevantProjectTypes = [''web-app''],
    techKeywords = [''Electron'', ''Angular''],
    priority = 3 \<rparr>"

definition agent_dotnet_maui :: AgentEntry where
  "agent_dotnet_maui = \<lparr>
    id_str = ''dotnet-maui'',
    name = ''.NET MAUI'',
    description = ''.NET MAUI cross-platform mobile/desktop development'',
    categories = [''mobile'', ''engineering''],
    tags = [''maui'', ''dotnet'', ''mobile'', ''cross-platform''],
    relevantProjectTypes = [''mobile''],
    techKeywords = [''.NET'', ''MAUI''],
    priority = 2 \<rparr>"

definition agent_prd :: AgentEntry where
  "agent_prd = \<lparr>
    id_str = ''prd'',
    name = ''PRD'',
    description = ''Product Requirements Document generator'',
    categories = [''planning'', ''documentation''],
    tags = [''prd'', ''requirements'', ''product''],
    relevantProjectTypes = [''*''],
    techKeywords = [],
    priority = 2 \<rparr>"

definition agent_specification :: AgentEntry where
  "agent_specification = \<lparr>
    id_str = ''specification'',
    name = ''Specification'',
    description = ''Technical specification document generator'',
    categories = [''planning'', ''documentation''],
    tags = [''specification'', ''requirements'', ''technical''],
    relevantProjectTypes = [''*''],
    techKeywords = [],
    priority = 2 \<rparr>"

definition agent_gem_orchestrator :: AgentEntry where
  "agent_gem_orchestrator = \<lparr>
    id_str = ''gem-orchestrator'',
    name = ''Orchestrator'',
    description = ''Multi-agent workflow orchestration'',
    categories = [''meta''],
    tags = [''orchestrator'', ''workflow'', ''multi-agent''],
    relevantProjectTypes = [''*''],
    techKeywords = [],
    priority = 2 \<rparr>"

definition agent_gem_implementer :: AgentEntry where
  "agent_gem_implementer = \<lparr>
    id_str = ''gem-implementer'',
    name = ''Implementer'',
    description = ''Code implementation from plans'',
    categories = [''engineering''],
    tags = [''implementation'', ''coding''],
    relevantProjectTypes = [''*''],
    techKeywords = [],
    priority = 2 \<rparr>"

definition agent_gem_researcher :: AgentEntry where
  "agent_gem_researcher = \<lparr>
    id_str = ''gem-researcher'',
    name = ''Researcher'',
    description = ''Technical research and analysis'',
    categories = [''planning''],
    tags = [''research'', ''analysis'', ''investigation''],
    relevantProjectTypes = [''*''],
    techKeywords = [],
    priority = 2 \<rparr>"

definition agent_4_1_Beast :: AgentEntry where
  "agent_4_1_Beast = \<lparr>
    id_str = ''4.1-Beast'',
    name = ''GPT-4.1 Beast Mode'',
    description = ''Maximum performance agent with advanced reasoning and comprehensive capabilities'',
    categories = [''engineering'', ''meta''],
    tags = [''beast-mode'', ''advanced'', ''comprehensive'', ''gpt-4.1''],
    relevantProjectTypes = [''*''],
    techKeywords = [],
    priority = 3 \<rparr>"

definition agent_mentor :: AgentEntry where
  "agent_mentor = \<lparr>
    id_str = ''mentor'',
    name = ''Mentor'',
    description = ''Learning and mentorship guidance'',
    categories = [''documentation''],
    tags = [''mentor'', ''learning'', ''guidance'', ''education''],
    relevantProjectTypes = [''learning''],
    techKeywords = [],
    priority = 2 \<rparr>"

definition agent_janitor :: AgentEntry where
  "agent_janitor = \<lparr>
    id_str = ''janitor'',
    name = ''Janitor'',
    description = ''Code cleanup and maintenance'',
    categories = [''review''],
    tags = [''cleanup'', ''maintenance'', ''refactor''],
    relevantProjectTypes = [''*''],
    techKeywords = [],
    priority = 3 \<rparr>"

definition AGENT_REGISTRY :: "AgentEntry list" where
  "AGENT_REGISTRY =
     [agent_plan, agent_planner, agent_task_planner, agent_context_architect,
     agent_repo_architect, agent_arch, agent_blueprint_mode, agent_implementation_plan,
     agent_principal_software_engineer, agent_software_engineer_agent_v1,
     agent_expert_nextjs_developer, agent_expert_react_frontend_engineer,
     agent_expert_cpp_software_engineer, agent_expert_dotnet_software_engineer,
     agent_api_architect, agent_debug, agent_playwright_tester, agent_polyglot_test_builder,
     agent_tdd_red, agent_tdd_green, agent_tdd_refactor, agent_devops_expert,
     agent_platform_sre_kubernetes, agent_github_actions_expert, agent_terraform,
     agent_se_technical_writer, agent_gem_documentation_writer, agent_gem_reviewer,
     agent_se_security_reviewer, agent_se_system_architecture_reviewer,
     agent_critical_thinking, agent_devils_advocate, agent_prompt_engineer,
     agent_meta_agentic_project_scaffold, agent_custom_agent_foundry,
     agent_typescript_mcp_expert, agent_python_mcp_expert, agent_azure_principal_architect,
     agent_ms_sql_dba, agent_postgresql_dba, agent_electron_angular_native,
     agent_dotnet_maui, agent_prd, agent_specification, agent_gem_orchestrator,
     agent_gem_implementer, agent_gem_researcher, agent_4_1_Beast, agent_mentor,
     agent_janitor]"

subsection \<open>The skill registry\<close>

definition skill_copilot_instructions_blueprint_generator :: SkillEntry where
  "skill_copilot_instructions_blueprint_generator = \<lparr>
    id_str = ''copilot-instructions-blueprint-generator'',
    name = ''Copilot Instructions Blueprint'',
    description = ''Technology-agnostic blueprint generator for copilot-instructions.md files'',
    categories = [''blueprint'', ''project-setup''],
    tags = [''copilot'', ''instructions'', ''blueprint'', ''standards''],
    relevantProjectTypes = [''*''],
    techKeywords = [],
    priority = 1,
    hasResources = False \<rparr>"

definition skill_folder_structure_blueprint_generator :: SkillEntry where
  "skill_folder_structure_blueprint_generator = \<lparr>
    id_str = ''folder-structure-blueprint-generator'',
    name = ''Folder Structure Blueprint'',
    description = ''Analyzes and documents project folder structures with visualization'',
    categories = [''blueprint'', ''project-setup''],
    tags = [''folder-structure'', ''blueprint'', ''visualization''],
    relevantProjectTypes = [''*''],
    techKeywords = [],
    priority = 1,
    hasResources = False \<rparr>"

definition skill_technology_stack_blueprint_generator :: SkillEntry where
  "skill_technology_stack_blueprint_generator = \<lparr>
    id_str = ''technology-stack-blueprint-generator'',
    name = ''Technology Stack Blueprint'',
    description = ''Analyzes codebases to create detailed technology stack documentation'',
    categories = [''blueprint'', ''analysis''],
    tags = [''tech-stack'', ''blueprint'', ''analysis'', ''documentation''],
    relevantProjectTypes = [''*''],
    techKeywords = [],
    priority = 1,
    hasResources = False \<rparr>"

definition skill_architecture_blueprint_generator :: SkillEntry where
  "skill_architecture_blueprint_generator = \<lparr>
    id_str = ''architecture-blueprint-generator'',
    name = ''Architecture Blueprint'',
    description = ''Generates comprehensive architecture documentation'',
    categories = [''blueprint''],
    tags = [''architecture'', ''blueprint'', ''documentation''],
    relevantProjectTypes = [''*''],
    techKeywords = [],
    priority = 1,
    hasResources = False \<rparr>"

definition skill_readme_blueprint_generator :: SkillEntry where
  "skill_readme_blueprint_generator = \<lparr>
    id_str = ''readme-blueprint-generator'',
    name = ''README Blueprint'',
    description = ''Generates comprehensive README documentation blueprints'',
    categories = [''blueprint'', ''document-gen''],
    tags = [''readme'', ''blueprint'', ''documentation''],
    relevantProjectTypes = [''*''],
    techKeywords = [],
    priority = 2,
    hasResources = False \<rparr>"

definition skill_code_exemplars_blueprint_generator :: SkillEntry where
  "skill_code_exemplars_blueprint_generator = \<lparr>
    id_str = ''code-exemplars-blueprint-generator'',
    name = ''Code Exemplars Blueprint'',
    description = ''Generates code example blueprints for documentation'',
    categories = [''blueprint''],
    tags = [''code-examples'', ''blueprint'', ''documentation''],
    relevantProjectTypes = [''library''],
    techKeywords = [],
    priority = 2,
    hasResources = False \<rparr>"

definition skill_project_workflow_analysis_blueprint_generator :: SkillEntry where
  "skill_project_workflow_analysis_blueprint_generator = \<lparr>
    id_str = ''project-workflow-analysis-blueprint-generator'',
    name = ''Project Workflow Blueprint'',
    description = ''Analyzes and documents project workflow patterns'',
    categories = [''blueprint'', ''analysis''],
    tags = [''workflow'', ''blueprint'', ''analysis''],
    relevantProjectTypes = [''*''],
    techKeywords = [],
    priority = 2,
    hasResources = False \<rparr>"

definition skill_create_specification :: SkillEntry where
  "skill_create_specification = \<lparr>
    id_str = ''create-specification'',
    name = ''Create Specification'',
    description = ''Creates specification files optimized for AI consumption'',
    categories = [''document-gen''],
    tags = [''specification'', ''requirements'', ''ai-optimized''],
    relevantProjectTypes = [''*''],
    techKeywords = [],
    priority = 1,
    hasResources = False \<rparr>"

definition skill_create_implementation_plan :: SkillEntry where
  "skill_create_implementation_plan = \<lparr>
    id_str = ''create-implementation-plan'',
    name = ''Create Implementation Plan'',
    description = ''Creates deterministic, machine-readable implementation plans'',
    categories = [''document-gen''],
    tags = [''implementation'', ''planning'', ''tasks''],
    relevantProjectTypes = [''*''],
    techKeywords = [],
    priority = 1,
    hasResources = False \<rparr>"

definition skill_create_readme :: SkillEntry where
  "skill_create_readme = \<lparr>
    id_str = ''create-readme'',
    name = ''Create README'',
    description = ''Creates professional README.md files'',
    categories = [''document-gen''],
    tags = [''readme'', ''documentation'', ''github''],
    relevantProjectTypes = [''*''],
    techKeywords = [],
    priority = 1,
    hasResources = False \<rparr>"

definition skill_create_agentsmd :: SkillEntry where
  "skill_create_agentsmd = \<lparr>
    id_str = ''create-agentsmd'',
    name = ''Create AGENTS.md'',
    description = ''Creates AGENTS.md '' @ [CHR 0xE2, CHR 0x80, CHR 0x94] @ '' an open-format README for agents'',
    categories = [''document-gen'', ''project-setup''],
    tags = [''agents.md'', ''agent-config'', ''documentation''],
    relevantProjectTypes = [''*''],
    techKeywords = [],
    priority = 1,
    hasResources = False \<rparr>"

definition skill_create_architectural_decision_record :: SkillEntry where
  "skill_create_architectural_decision_record = \<lparr>
    id_str = ''create-architectural-decision-record'',
    name = ''Create ADR'',
    description = ''Creates Architectural Decision Records for AI-optimized decision documentation'',
    categories = [''document-gen''],
    tags = [''adr'', ''architecture'', ''decisions''],
    relevantProjectTypes = [''*''],
    techKeywords = [],
    priority = 1,
    hasResources = False \<rparr>"

definition skill_create_llms :: SkillEntry where
  "skill_create_llms = \<lparr>
    id_str = ''create-llms'',
    name = ''Create LLMs.txt'',
    description = ''Creates LLMs.txt file for AI context'',
    categories = [''document-gen'', ''project-setup''],
    tags = [''llms.txt'', ''ai-context'', ''documentation''],
    relevantProjectTypes = [''*''],
    techKeywords = [],
    priority = 2,
    hasResources = False \<rparr>"

definition skill_prd :: SkillEntry where
  "skill_prd = \<lparr>
    id_str = ''prd'',
    name = ''Product Requirements Document'',
    description = ''Creates Product Requirements Documents (PRD)'',
    categories = [''document-gen''],
    tags = [''prd'', ''requirements'', ''product''],
    relevantProjectTypes = [''web-app'', ''api'', ''mobile''],
    techKeywords = [],
    priority = 2,
    hasResources = False \<rparr>"

definition skill_conventional_commit :: SkillEntry where
  "skill_conventional_commit = \<lparr>
    id_str = ''conventional-commit'',
    name = ''Conventional Commit'',
    description = ''Generates standardized conventional commit messages'',
    categories = [''git''],
    tags = [''commit'', ''conventional'', ''git'', ''workflow''],
    relevantProjectTypes = [''*''],
    techKeywords = [],
    priority = 1,
    hasResources = False \<rparr>"

definition skill_git_commit :: SkillEntry where
  "skill_git_commit = \<lparr>
    id_str = ''git-commit'',
    name = ''Git Commit'',
    description = ''Git commit message helper'',
    categories = [''git''],
    tags = [''commit'', ''git''],
    relevantProjectTypes = [''*''],
    techKeywords = [],
    priority = 2,
    hasResources = False \<rparr>"

definition skill_git_flow_branch_creator :: SkillEntry where
  "skill_git_flow_branch_creator = \<lparr>
    id_str = ''git-flow-branch-creator'',
    name = ''Git Flow Branch Creator'',
    description = ''Creates branches following Git Flow naming conventions'',
    categories = [''git''],
    tags = [''git-flow'', ''branching'', ''naming''],
    relevantProjectTypes = [''*''],
    techKeywords = [],
    priority = 2,
    hasResources = False \<rparr>"

definition skill_generate_custom_instructions_from_codebase :: SkillEntry where
  "skill_generate_custom_instructions_from_codebase = \<lparr>
    id_str = ''generate-custom-instructions-from-codebase'',
    name = ''Generate Custom Instructions'',
    description = ''Generates migration/evolution instructions by analyzing codebase differences'',
    categories = [''code-gen'', ''migration''],
    tags = [''instructions'', ''migration'', ''evolution'', ''codebase-analysis''],
    relevantProjectTypes = [''*''],
    techKeywords = [],
    priority = 1,
    hasResources = False \<rparr>"

definition skill_typescript_mcp_server_generator :: SkillEntry where
  "skill_typescript_mcp_server_generator = \<lparr>
    id_str = ''typescript-mcp-server-generator'',
    name = ''TypeScript MCP Server Generator'',
    description = ''Generates TypeScript MCP server scaffolding'',
    categories = [''mcp'', ''code-gen''],
    tags = [''mcp'', ''typescript'', ''server'', ''scaffolding''],
    relevantProjectTypes = [''api'', ''library''],
    techKeywords = [''TypeScript'', ''MCP''],
    priority = 2,
    hasResources = False \<rparr>"

definition skill_python_mcp_server_generator :: SkillEntry where
  "skill_python_mcp_server_generator = \<lparr>
    id_str = ''python-mcp-server-generator'',
    name = ''Python MCP Server Generator'',
    description = ''Generates Python MCP server scaffolding'',
    categories = [''mcp'', ''code-gen''],
    tags = [''mcp'', ''python'', ''server''],
    relevantProjectTypes = [''api'', ''data-science''],
    techKeywords = [''Python'', ''MCP''],
    priority = 3,
    hasResources = False \<rparr>"

definition skill_create_spring_boot_java_project :: SkillEntry where
  "skill_create_spring_boot_java_project = \<lparr>
    id_str = ''create-spring-boot-java-project'',
    name = ''Spring Boot Java Project'',
    description = ''Creates Spring Boot Java project scaffolding'',
    categories = [''code-gen''],
    tags = [''spring-boot'', ''java'', ''scaffolding''],
    relevantProjectTypes = [''api'', ''web-app''],
    techKeywords = [''Java'', ''Spring Boot''],
    priority = 3,
    hasResources = False \<rparr>"

definition skill_create_spring_boot_kotlin_project :: SkillEntry where
  "skill_create_spring_boot_kotlin_project = \<lparr>
    id_str = ''create-spring-boot-kotlin-project'',
    name = ''Spring Boot Kotlin Project'',
    description = ''Creates Spring Boot Kotlin project scaffolding'',
    categories = [''code-gen''],
    tags = [''spring-boot'', ''kotlin'', ''scaffolding''],
    relevantProjectTypes = [''api''],
    techKeywords = [''Kotlin'', ''Spring Boot''],
    priority = 3,
    hasResources = False \<rparr>"

definition skill_create_web_form :: SkillEntry where
  "skill_create_web_form = \<lparr>
    id_str = ''create-web-form'',
    name = ''Create Web Form'',
    description = ''Generates web form components'',
    categories = [''code-gen''],
    tags = [''form'', ''web'', ''components''],
    relevantProjectTypes = [''web-app''],
    techKeywords = [''HTML'', ''CSS'', ''JavaScript''],
    priority = 3,
    hasResources = False \<rparr>"

definition skill_playwright_generate_test :: SkillEntry where
  "skill_playwright_generate_test = \<lparr>
    id_str = ''playwright-generate-test'',
    name = ''Playwright Test Generator'',
    description = ''Generates Playwright E2E test scenarios'',
    categories = [''testing''],
    tags = [''playwright'', ''e2e'', ''test-generation''],
    relevantProjectTypes = [''web-app''],
    techKeywords = [''Playwright'', ''TypeScript''],
    priority = 2,
    hasResources = False \<rparr>"

definition skill_polyglot_test_agent :: SkillEntry where
  "skill_polyglot_test_agent = \<lparr>
    id_str = ''polyglot-test-agent'',
    name = ''Polyglot Test Agent'',
    description = ''Multi-language test generation'',
    categories = [''testing''],
    tags = [''testing'', ''polyglot'', ''multi-language''],
    relevantProjectTypes = [''*''],
    techKeywords = [],
    priority = 2,
    hasResources = True \<rparr>"

definition skill_pytest_coverage :: SkillEntry where
  "skill_pytest_coverage = \<lparr>
    id_str = ''pytest-coverage'',
    name = ''Pytest Coverage'',
    description = ''Python test coverage analysis with pytest'',
    categories = [''testing''],
    tags = [''pytest'', ''coverage'', ''python''],
    relevantProjectTypes = [''api'', ''data-science''],
    techKeywords = [''Python'', ''pytest''],
    priority = 3,
    hasResources = False \<rparr>"

definition skill_webapp_testing :: SkillEntry where
  "skill_webapp_testing = \<lparr>
    id_str = ''webapp-testing'',
    name = ''Web App Testing'',
    description = ''Web application testing strategy and execution'',
    categories = [''testing''],
    tags = [''testing'', ''web'', ''strategy''],
    relevantProjectTypes = [''web-app''],
    techKeywords = [],
    priority = 2,
    hasResources = False \<rparr>"

definition skill_multi_stage_dockerfile :: SkillEntry where
  "skill_multi_stage_dockerfile = \<lparr>
    id_str = ''multi-stage-dockerfile'',
    name = ''Multi-Stage Dockerfile'',
    description = ''Creates optimized multi-stage Dockerfiles'',
    categories = [''devops'', ''infrastructure''],
    tags = [''docker'', ''dockerfile'', ''multi-stage'', ''optimization''],
    relevantProjectTypes = [''devops'', ''api'', ''web-app''],
    techKeywords = [''Docker''],
    priority = 2,
    hasResources = False \<rparr>"

definition skill_devops_rollout_plan :: SkillEntry where
  "skill_devops_rollout_plan = \<lparr>
    id_str = ''devops-rollout-plan'',
    name = ''DevOps Rollout Plan'',
    description = ''Creates deployment rollout plans'',
    categories = [''devops''],
    tags = [''deployment'', ''rollout'', ''planning''],
    relevantProjectTypes = [''devops''],
    techKeywords = [],
    priority = 2,
    hasResources = False \<rparr>"

definition skill_containerize_aspnetcore :: SkillEntry where
  "skill_containerize_aspnetcore = \<lparr>
    id_str = ''containerize-aspnetcore'',
    name = ''Containerize ASP.NET Core'',
    description = ''Containerizes ASP.NET Core applications'',
    categories = [''devops''],
    tags = [''container'', ''docker'', ''aspnet''],
    relevantProjectTypes = [''api'', ''web-app''],
    techKeywords = [''ASP.NET'', ''.NET'', ''Docker''],
    priority = 3,
    hasResources = False \<rparr>"

definition skill_refactor :: SkillEntry where
  "skill_refactor = \<lparr>
    id_str = ''refactor'',
    name = ''Refactor'',
    description = ''Code refactoring guidance and execution'',
    categories = [''refactor''],
    tags = [''refactor'', ''code-quality'', ''improvement''],
    relevantProjectTypes = [''*''],
    techKeywords = [],
    priority = 1,
    hasResources = False \<rparr>"

definition skill_refactor_plan :: SkillEntry where
  "skill_refactor_plan = \<lparr>
    id_str = ''refactor-plan'',
    name = ''Refactor Plan'',
    description = ''Creates refactoring plans'',
    categories = [''refactor''],
    tags = [''refactor'', ''planning'', ''strategy''],
    relevantProjectTypes = [''*''],
    techKeywords = [],
    priority = 2,
    hasResources = False \<rparr>"

definition skill_context_map :: SkillEntry where
  "skill_context_map = \<lparr>
    id_str = ''context-map'',
    name = ''Context Map'',
    description = ''Creates context maps for codebases'',
    categories = [''analysis''],
    tags = [''context'', ''mapping'', ''understanding''],
    relevantProjectTypes = [''*''],
    techKeywords = [],
    priority = 1,
    hasResources = False \<rparr>"

definition skill_what_context_needed :: SkillEntry where
  "skill_what_context_needed = \<lparr>
    id_str = ''what-context-needed'',
    name = ''What Context Needed'',
    description = ''Identifies what context is needed for a task'',
    categories = [''analysis''],
    tags = [''context'', ''analysis'', ''planning''],
    relevantProjectTypes = [''*''],
    techKeywords = [],
    priority = 2,
    hasResources = False \<rparr>"

definition skill_prompt_builder :: SkillEntry where
  "skill_prompt_builder = \<lparr>
    id_str = ''prompt-builder'',
    name = ''Prompt Builder'',
    description = ''Builds and optimizes prompts'',
    categories = [''prompt''],
    tags = [''prompt'', ''optimization'', ''engineering''],
    relevantProjectTypes = [''*''],
    techKeywords = [],
    priority = 2,
    hasResources = False \<rparr>"

definition skill_boost_prompt :: SkillEntry where
  "skill_boost_prompt = \<lparr>
    id_str = ''boost-prompt'',
    name = ''Boost Prompt'',
    description = ''Enhances and improves existing prompts'',
    categories = [''prompt''],
    tags = [''prompt'', ''enhancement'', ''improvement''],
    relevantProjectTypes = [''*''],
    techKeywords = [],
    priority = 3,
    hasResources = False \<rparr>"

definition skill_editorconfig :: SkillEntry where
  "skill_editorconfig = \<lparr>
    id_str = ''editorconfig'',
    name = ''EditorConfig'',
    description = ''Creates .editorconfig files for consistent coding styles'',
    categories = [''project-setup''],
    tags = [''editorconfig'', ''coding-style'', ''consistency''],
    relevantProjectTypes = [''*''],
    techKeywords = [],
    priority = 1,
    hasResources = False \<rparr>"

definition skill_create_github_action_workflow_specification :: SkillEntry where
  "skill_create_github_action_workflow_specification = \<lparr>
    id_str = ''create-github-action-workflow-specification'',
    name = ''GitHub Actions Workflow'',
    description = ''Creates GitHub Actions workflow specifications'',
    categories = [''devops'', ''project-setup''],
    tags = [''github-actions'', ''ci'', ''workflow''],
    relevantProjectTypes = [''*''],
    techKeywords = [''GitHub Actions''],
    priority = 2,
    hasResources = False \<rparr>"

definition skill_finalize_agent_prompt :: SkillEntry where
  "skill_finalize_agent_prompt = \<lparr>
    id_str = ''finalize-agent-prompt'',
    name = ''Finalize Agent Prompt'',
    description = ''Finalizes and polishes agent prompt definitions'',
    categories = [''prompt'', ''project-setup''],
    tags = [''agent'', ''prompt'', ''finalization''],
    relevantProjectTypes = [''*''],
    techKeywords = [],
    priority = 2,
    hasResources = False \<rparr>"

definition skill_dotnet_upgrade :: SkillEntry where
  "skill_dotnet_upgrade = \<lparr>
    id_str = ''dotnet-upgrade'',
    name = ''.NET Upgrade'',
    description = ''.NET framework/version upgrade assistance'',
    categories = [''migration''],
    tags = [''dotnet'', ''upgrade'', ''migration''],
    relevantProjectTypes = [''web-app'', ''api''],
    techKeywords = [''.NET'', ''C#''],
    priority = 3,
    hasResources = False \<rparr>"

definition skill_excalidraw_diagram_generator :: SkillEntry where
  "skill_excalidraw_diagram_generator = \<lparr>
    id_str = ''excalidraw-diagram-generator'',
    name = ''Excalidraw Diagram Generator'',
    description = ''Generates Excalidraw diagrams with templates for various diagram types'',
    categories = [''document-gen''],
    tags = [''excalidraw'', ''diagrams'', ''visualization''],
    relevantProjectTypes = [''*''],
    techKeywords = [],
    priority = 3,
    hasResources = True \<rparr>"

definition skill_aspire :: SkillEntry where
  "skill_aspire = \<lparr>
    id_str = ''aspire'',
    name = ''.NET Aspire'',
    description = ''.NET Aspire cloud-native application development'',
    categories = [''platform''],
    tags = [''aspire'', ''dotnet'', ''cloud-native''],
    relevantProjectTypes = [''api'', ''web-app''],
    techKeywords = [''.NET'', ''Aspire''],
    priority = 3,
    hasResources = True \<rparr>"

definition SKILL_REGISTRY :: "SkillEntry list" where
  "SKILL_REGISTRY =
     [skill_copilot_instructions_blueprint_generator,
     skill_folder_structure_blueprint_generator, skill_technology_stack_blueprint_generator,
     skill_architecture_blueprint_generator, skill_readme_blueprint_generator,
     skill_code_exemplars_blueprint_generator,
     skill_project_workflow_analysis_blueprint_generator, skill_create_specification,
     skill_create_implementation_plan, skill_create_readme, skill_create_agentsmd,
     skill_create_architectural_decision_record, skill_create_llms, skill_prd,
     skill_conventional_commit, skill_git_commit, skill_git_flow_branch_creator,
     skill_generate_custom_instructions_from_codebase, skill_typescript_mcp_server_generator,
     skill_python_mcp_server_generator, skill_create_spring_boot_java_project,
     skill_create_spring_boot_kotlin_project, skill_create_web_form,
     skill_playwright_generate_test, skill_polyglot_test_agent, skill_pytest_coverage,
     skill_webapp_testing, skill_multi_stage_dockerfile, skill_devops_rollout_plan,
     skill_containerize_aspnetcore, skill_refactor, skill_refactor_plan, skill_context_map,
     skill_what_context_needed, skill_prompt_builder, skill_boost_prompt, skill_editorconfig,
     skill_create_github_action_workflow_specification, skill_finalize_agent_prompt,
     skill_dotnet_upgrade, skill_excalidraw_diagram_generator, skill_aspire]"

subsection \<open>The recommendation engine\<close>

text \<open>
  The score of one entry. The source computes it twice with the same statements, once
  in the callback over \<open>AGENT_REGISTRY\<close> and once in the callback over
  \<open>SKILL_REGISTRY\<close>; both are this function, at the two record types. \<open>score\<close> is
  the local variable, threaded through the two \<open>for\<close> statements. \<open>unicodeLower\<close> is the runtime's
  part of \<open>toLowerCase\<close>.
\<close>

definition projectTypeStep :: "string \<Rightarrow> ('a AgentEntry_scheme) \<Rightarrow> int \<Rightarrow> int" where
  "projectTypeStep projectType' e score =
     (if includes_arr (relevantProjectTypes e) ''*'' \<or>
         includes_arr (relevantProjectTypes e) projectType'
      then score + 10 else score)"

definition keywordMatches :: "(string \<Rightarrow> string) \<Rightarrow> string list \<Rightarrow> string \<Rightarrow> bool" where
  "keywordMatches unicodeLower techLower keyword =
     some techLower (\<lambda>t. includes_str t (toLowerCase unicodeLower keyword) \<or>
                          includes_str (toLowerCase unicodeLower keyword) t)"

definition techStep :: "(string \<Rightarrow> string) \<Rightarrow> string list \<Rightarrow> string \<Rightarrow> int \<Rightarrow> int" where
  "techStep unicodeLower techLower keyword score =
     (if keywordMatches unicodeLower techLower keyword then score + 5 else score)"

definition tagStep :: "string \<Rightarrow> string \<Rightarrow> int \<Rightarrow> int" where
  "tagStep intentLower tag score =
     (if includes_str intentLower tag then score + 3 else score)"

definition scoreEntry ::
    "(string \<Rightarrow> string) \<Rightarrow> string \<Rightarrow> string list \<Rightarrow> string \<Rightarrow> ('a AgentEntry_scheme)
      \<Rightarrow> int" where
  "scoreEntry unicodeLower projectType' techLower intentLower e =
     (let score = 0;
          score = projectTypeStep projectType' e score;
          score = fold (techStep unicodeLower techLower) (techKeywords e) score;
          score = fold (tagStep intentLower) (tags e) score;
          score = score + (4 - priority e) * 2
      in score)"

text \<open>
  The chain \<open>map\<close>, \<open>filter\<close>, \<open>sort\<close>, \<open>slice\<close>, \<open>map\<close> over one registry; a scored
  entry \<open>{ agent, score }\<close> is a pair.
\<close>

definition rank ::
    "(string \<Rightarrow> string) \<Rightarrow> string \<Rightarrow> string list \<Rightarrow> string \<Rightarrow> int
      \<Rightarrow> ('a AgentEntry_scheme) list \<Rightarrow> ('a AgentEntry_scheme) list" where
  "rank unicodeLower projectType' techLower intentLower maxN registry =
     map fst
       (slice0 maxN
         (sort_cmp (\<lambda>a b. snd b - snd a)
           (filter (\<lambda>s. snd s > 0)
             (map (\<lambda>e. (e, scoreEntry unicodeLower projectType' techLower intentLower e))
               registry))))"

definition recommendAgentSkills ::
    "(string \<Rightarrow> string) \<Rightarrow> Options \<Rightarrow> RecommendationResult" where
  "recommendAgentSkills unicodeLower options =
     (let projectType' = orDefault (projectType options) ''other'';
          techStack' = orDefault (techStack options) [];
          userIntent' = orDefault (userIntent options) [];
          maxAgents' = orDefault (maxAgents options) 10;
          maxSkills' = orDefault (maxSkills options) 15;
          intentLower = toLowerCase unicodeLower userIntent';
          techLower = map (toLowerCase unicodeLower) techStack';
          scoredAgents =
            rank unicodeLower projectType' techLower intentLower maxAgents' AGENT_REGISTRY;
          scoredSkills =
            rank unicodeLower projectType' techLower intentLower maxSkills' SKILL_REGISTRY
      in \<lparr> agents = scoredAgents, skills = scoredSkills \<rparr>)"

subsection \<open>Search\<close>

definition matchesQuery ::
    "(string \<Rightarrow> string) \<Rightarrow> string \<Rightarrow> ('a AgentEntry_scheme) \<Rightarrow> bool" where
  "matchesQuery unicodeLower q a =
     (includes_str (toLowerCase unicodeLower (name a)) q \<or>
      includes_str (toLowerCase unicodeLower (description a)) q \<or>
      some (tags a) (\<lambda>t. includes_str t q) \<or>
      some (categories a) (\<lambda>c. includes_str c q))"

definition searchAgentSkills :: "(string \<Rightarrow> string) \<Rightarrow> string \<Rightarrow> RecommendationResult" where
  "searchAgentSkills unicodeLower query =
     (let q = toLowerCase unicodeLower query;
          matchedAgents = filter (matchesQuery unicodeLower q) AGENT_REGISTRY;
          matchedSkills = filter (matchesQuery unicodeLower q) SKILL_REGISTRY
      in \<lparr> agents = matchedAgents, skills = matchedSkills \<rparr>)"

subsection \<open>Category index\<close>

definition collectCategories :: "('a AgentEntry_scheme) list \<Rightarrow> string list" where
  "collectCategories registry = fold (\<lambda>a cats. fold set_add (categories a) cats) registry []"

definition listCategories :: CategoryLists where
  "listCategories =
     (let agentCats = collectCategories AGENT_REGISTRY;
          skillCats = collectCategories SKILL_REGISTRY
      in \<lparr> agentCategories = sort_cmp default_cmp agentCats,
           skillCategories = sort_cmp default_cmp skillCats \<rparr>)"

subsection \<open>Notions used to state the properties\<close>

text \<open>
  The score \<open>recommendAgentSkills\<close> gives an entry for a request: \<open>scoreEntry\<close> at
  the values the function derives from its argument.
\<close>

definition scoreOf :: "(string \<Rightarrow> string) \<Rightarrow> Options \<Rightarrow> ('a AgentEntry_scheme) \<Rightarrow> int" where
  "scoreOf unicodeLower options e =
     scoreEntry unicodeLower (orDefault (projectType options) ''other'')
       (map (toLowerCase unicodeLower) (orDefault (techStack options) []))
       (toLowerCase unicodeLower (orDefault (userIntent options) [])) e"

text \<open>\<open>before xs a b\<close>: \<open>a\<close> stands at an earlier position of \<open>xs\<close> than \<open>b\<close>.\<close>

fun before :: "'a list \<Rightarrow> 'a \<Rightarrow> 'a \<Rightarrow> bool" where
  "before [] a b = False"
| "before (x # xs) a b = ((x = a \<and> b \<in> set xs) \<or> before xs a b)"







text \<open>
  An entry mentions a query when the query is, ignoring case, a substring of its name,
  its description, one of its tags or one of its categories.
\<close>

definition mentions :: "(string \<Rightarrow> string) \<Rightarrow> string \<Rightarrow> ('a AgentEntry_scheme) \<Rightarrow> bool" where
  "mentions unicodeLower query e =
     (sublist (toLowerCase unicodeLower query) (toLowerCase unicodeLower (name e)) \<or>
      sublist (toLowerCase unicodeLower query) (toLowerCase unicodeLower (description e)) \<or>
      list_ex (\<lambda>t. sublist (toLowerCase unicodeLower query) (toLowerCase unicodeLower t))
        (tags e) \<or>
      list_ex (\<lambda>c. sublist (toLowerCase unicodeLower query) (toLowerCase unicodeLower c))
        (categories e))"

text \<open>The priority bonus of an entry, and the bonus a wildcard entry has on top of it.\<close>

definition priorityBonus :: "('a AgentEntry_scheme) \<Rightarrow> int" where
  "priorityBonus e = (4 - priority e) * 2"

definition wildcardBonus :: "('a AgentEntry_scheme) \<Rightarrow> int" where
  "wildcardBonus e = (if ''*'' \<in> set (relevantProjectTypes e) then 10 else 0)"




definition unknownTypeRequest :: Options where
  "unknownTypeRequest =
     \<lparr> projectType = Some ''unknown-type'', techStack = Some [], userIntent = Some [],
       maxAgents = Some 100, maxSkills = Some 100 \<rparr>"

definition frontendRequest :: Options where
  "frontendRequest =
     \<lparr> projectType = Some ''web-app'', techStack = Some [''React'', ''Next.js''],
       userIntent = Some ''need frontend help'', maxAgents = Some 1, maxSkills = Some 3 \<rparr>"

section \<open>Properties\<close>

subsection \<open>The library functions\<close>

lemma startsWith_prefix: "startsWith s t = prefix t s"
  by (induction s t rule: startsWith.induct) auto

lemma includes_str_sublist: "includes_str s t = sublist t s"
  by (induction s) (simp_all add: startsWith_prefix sublist_Cons_right)

lemma includes_str_empty: "includes_str s []"
  by (simp add: includes_str_sublist)

lemma asciiLower_append: "asciiLower (s @ t) = asciiLower s @ asciiLower t"
  by (simp add: asciiLower_def)

lemma includes_str_asciiLower:
  "includes_str s t \<Longrightarrow> includes_str (asciiLower s) (asciiLower t)"
  unfolding includes_str_sublist sublist_def by (metis asciiLower_append)

lemma asciiLower_idem: "asciiLower (asciiLower s) = asciiLower s"
  by (induction s) (auto simp: asciiLower_def lower_char_def Let_def)

lemma toLowerCase_ascii: "isAscii s \<Longrightarrow> toLowerCase ul s = asciiLower s"
  by (simp add: toLowerCase_def)

lemma toLowerCase_Nil: "toLowerCase ul [] = []"
  by (simp add: toLowerCase_def isAscii_def asciiLower_def)






lemma length_insert_cmp: "length (insert_cmp cmp x ys) = Suc (length ys)"
  by (induction ys) simp_all

lemma set_insert_cmp: "set (insert_cmp cmp x ys) = insert x (set ys)"
  by (induction ys) auto

lemma length_sort_cmp: "length (sort_cmp cmp xs) = length xs"
  by (induction xs) (simp_all add: sort_cmp_def length_insert_cmp)

lemma set_sort_cmp: "set (sort_cmp cmp xs) = set xs"
  by (induction xs) (simp_all add: sort_cmp_def set_insert_cmp)

lemma sort_cmp_Cons: "sort_cmp cmp (x # xs) = insert_cmp cmp x (sort_cmp cmp xs)"
  by (simp add: sort_cmp_def)

lemma sort_cmp_Nil: "sort_cmp cmp [] = []"
  by (simp add: sort_cmp_def)

text \<open>
  The two comparators of the module give the sorts of the list library: by descending
  score it is the stable \<open>sort_key\<close> on the negated score, and the default
  comparator gives \<open>sort\<close> on strings.
\<close>

lemma insert_cmp_score_insort:
  "insert_cmp (\<lambda>a b. snd b - snd a) x ys = insort_key (\<lambda>p. - (snd p :: int)) x ys"
  by (induction ys) simp_all

lemma sort_cmp_score_sort_key:
  "sort_cmp (\<lambda>a b. snd b - snd a) xs = sort_key (\<lambda>p. - (snd p :: int)) xs"
  by (induction xs) (simp_all add: sort_cmp_Cons sort_cmp_Nil insert_cmp_score_insort)

lemma insert_cmp_default_insort: "insert_cmp default_cmp x ys = insort x ys"
  by (induction ys) (auto simp: default_cmp_def)

lemma sort_cmp_default_sort: "sort_cmp default_cmp xs = sort xs"
  by (induction xs) (simp_all add: sort_cmp_Cons sort_cmp_Nil insert_cmp_default_insort)

lemma distinct_map_insert_cmp:
  "distinct (map f (insert_cmp cmp x ys)) = (f x \<notin> f ` set ys \<and> distinct (map f ys))"
  by (induction ys) (auto simp: set_insert_cmp)

lemma distinct_map_sort_cmp: "distinct (map f (sort_cmp cmp xs)) = distinct (map f xs)"
  by (induction xs) (simp_all add: sort_cmp_Cons sort_cmp_Nil distinct_map_insert_cmp set_sort_cmp)

text \<open>
  Sorting by descending score: the result is ordered, and the pairs of one score keep
  their order.
\<close>

lemma filter_insert_cmp_score:
  "filter (\<lambda>p. snd p = s) (insert_cmp (\<lambda>a b. snd b - snd a) x ys) =
     (if snd x = s then x # filter (\<lambda>p. snd p = s) ys else filter (\<lambda>p. snd p = (s::int)) ys)"
  by (induction ys) auto

lemma filter_sort_cmp_score:
  "filter (\<lambda>p. snd p = (s::int)) (sort_cmp (\<lambda>a b. snd b - snd a) xs) = filter (\<lambda>p. snd p = s) xs"
  by (induction xs) (simp_all add: sort_cmp_Cons sort_cmp_Nil filter_insert_cmp_score)

lemma sorted_insert_cmp_score:
  "sorted_wrt (\<lambda>a b. snd b \<le> (snd a :: int)) ys \<Longrightarrow>
   sorted_wrt (\<lambda>a b. snd b \<le> snd a) (insert_cmp (\<lambda>a b. snd b - snd a) x ys)"
  by (induction ys) (auto simp: set_insert_cmp)

lemma sorted_sort_cmp_score:
  "sorted_wrt (\<lambda>a b. snd b \<le> (snd a :: int)) (sort_cmp (\<lambda>a b. snd b - snd a) xs)"
  by (induction xs) (simp_all add: sort_cmp_Cons sort_cmp_Nil sorted_insert_cmp_score)

text \<open>The order of two elements in a list, under \<open>take\<close>, \<open>filter\<close> and \<open>map\<close>.\<close>

lemma before_in_set: "before xs a b \<Longrightarrow> a \<in> set xs \<and> b \<in> set xs"
  by (induction xs) auto

lemma before_take: "before (take k xs) a b \<Longrightarrow> before xs a b"
proof (induction xs arbitrary: k)
  case Nil then show ?case by simp
next
  case (Cons x xs)
  then show ?case by (cases k) (auto dest: in_set_takeD)
qed

lemma before_filter: "before (filter P xs) a b = (before xs a b \<and> P a \<and> P b)"
  by (induction xs) auto

lemma before_mapD:
  "before (map f xs) a' b' \<Longrightarrow> \<exists>a b. before xs a b \<and> f a = a' \<and> f b = b'"
  by (induction xs) auto

lemma before_total:
  "a \<in> set xs \<Longrightarrow> b \<in> set xs \<Longrightarrow> a \<noteq> b \<Longrightarrow> before xs a b \<or> before xs b a"
  by (induction xs) auto

lemma before_distinct_asym:
  "distinct xs \<Longrightarrow> before xs a b \<Longrightarrow> \<not> before xs b a"
  by (induction xs) (auto dest: before_in_set)

lemma before_sorted_wrt: "sorted_wrt R xs \<Longrightarrow> before xs a b \<Longrightarrow> R a b"
  by (induction xs) auto

lemma length_slice0_pos: "0 < n \<Longrightarrow> int (length (slice0 n xs)) = min (int (length xs)) n"
  by (auto simp: slice0_def Let_def min_def)

lemma slice0_all: "int (length xs) \<le> n \<Longrightarrow> slice0 n xs = xs"
  by (simp add: slice0_def Let_def min_def)

subsection \<open>The fields of the catalog entries\<close>

lemma agent_plan_fields:
  "id_str agent_plan = ''plan''"
  "categories agent_plan = [''planning'']"
  "tags agent_plan = [''planning'', ''strategy'', ''analysis'', ''think-first'']"
  "relevantProjectTypes agent_plan = [''*'']"
  "priority agent_plan = 1"
  by (simp_all add: agent_plan_def)

lemma agent_planner_fields:
  "id_str agent_planner = ''planner''"
  "categories agent_planner = [''planning'']"
  "tags agent_planner = [''planning'', ''task-breakdown'', ''workflow'']"
  "relevantProjectTypes agent_planner = [''*'']"
  "priority agent_planner = 1"
  by (simp_all add: agent_planner_def)

lemma agent_task_planner_fields:
  "id_str agent_task_planner = ''task-planner''"
  "categories agent_task_planner = [''planning'']"
  "tags agent_task_planner = [''planning'', ''tasks'', ''dependencies'']"
  "relevantProjectTypes agent_task_planner = [''*'']"
  "priority agent_task_planner = 2"
  by (simp_all add: agent_task_planner_def)

lemma agent_context_architect_fields:
  "id_str agent_context_architect = ''context-architect''"
  "categories agent_context_architect = [''architecture'', ''planning'']"
  "tags agent_context_architect = [''architecture'', ''context-map'', ''dependencies'', ''multi-file'']"
  "relevantProjectTypes agent_context_architect = [''*'']"
  "priority agent_context_architect = 1"
  by (simp_all add: agent_context_architect_def)

lemma agent_repo_architect_fields:
  "id_str agent_repo_architect = ''repo-architect''"
  "categories agent_repo_architect = [''architecture'', ''meta'']"
  "tags agent_repo_architect = [''scaffolding'', ''repo-structure'', ''agents'', ''skills'']"
  "relevantProjectTypes agent_repo_architect = [''*'']"
  "priority agent_repo_architect = 1"
  by (simp_all add: agent_repo_architect_def)

lemma agent_arch_fields:
  "id_str agent_arch = ''arch''"
  "categories agent_arch = [''architecture'']"
  "tags agent_arch = [''architecture'', ''design-patterns'', ''system-design'']"
  "relevantProjectTypes agent_arch = [''web-app'', ''api'', ''library'', ''monorepo'']"
  "priority agent_arch = 1"
  by (simp_all add: agent_arch_def)

lemma agent_blueprint_mode_fields:
  "id_str agent_blueprint_mode = ''blueprint-mode''"
  "categories agent_blueprint_mode = [''architecture'', ''planning'']"
  "tags agent_blueprint_mode = [''blueprint'', ''architecture'', ''comprehensive'']"
  "relevantProjectTypes agent_blueprint_mode = [''*'']"
  "priority agent_blueprint_mode = 2"
  by (simp_all add: agent_blueprint_mode_def)

lemma agent_implementation_plan_fields:
  "id_str agent_implementation_plan = ''implementation-plan''"
  "categories agent_implementation_plan = [''planning'']"
  "tags agent_implementation_plan = [''implementation'', ''planning'', ''features'']"
  "relevantProjectTypes agent_implementation_plan = [''*'']"
  "priority agent_implementation_plan = 2"
  by (simp_all add: agent_implementation_plan_def)

lemma agent_principal_software_engineer_fields:
  "id_str agent_principal_software_engineer = ''principal-software-engineer''"
  "categories agent_principal_software_engineer = [''engineering'', ''review'']"
  "tags agent_principal_software_engineer = [''best-practices'', ''clean-code'', ''solid'', ''design-patterns'', ''tech-debt'']"
  "relevantProjectTypes agent_principal_software_engineer = [''*'']"
  "priority agent_principal_software_engineer = 1"
  by (simp_all add: agent_principal_software_engineer_def)

lemma agent_software_engineer_agent_v1_fields:
  "id_str agent_software_engineer_agent_v1 = ''software-engineer-agent-v1''"
  "categories agent_software_engineer_agent_v1 = [''engineering'']"
  "tags agent_software_engineer_agent_v1 = [''coding'', ''implementation'', ''general'']"
  "relevantProjectTypes agent_software_engineer_agent_v1 = [''*'']"
  "priority agent_software_engineer_agent_v1 = 2"
  by (simp_all add: agent_software_engineer_agent_v1_def)

lemma agent_expert_nextjs_developer_fields:
  "id_str agent_expert_nextjs_developer = ''expert-nextjs-developer''"
  "categories agent_expert_nextjs_developer = [''engineering'', ''frontend'']"
  "tags agent_expert_nextjs_developer = [''nextjs'', ''react'', ''ssr'', ''fullstack'']"
  "relevantProjectTypes agent_expert_nextjs_developer = [''web-app'']"
  "priority agent_expert_nextjs_developer = 2"
  by (simp_all add: agent_expert_nextjs_developer_def)

lemma agent_expert_react_frontend_engineer_fields:
  "id_str agent_expert_react_frontend_engineer = ''expert-react-frontend-engineer''"
  "categories agent_expert_react_frontend_engineer = [''engineering'', ''frontend'']"
  "tags agent_expert_react_frontend_engineer = [''react'', ''frontend'', ''components'', ''state-management'']"
  "relevantProjectTypes agent_expert_react_frontend_engineer = [''web-app'']"
  "priority agent_expert_react_frontend_engineer = 2"
  by (simp_all add: agent_expert_react_frontend_engineer_def)

lemma agent_expert_cpp_software_engineer_fields:
  "id_str agent_expert_cpp_software_engineer = ''expert-cpp-software-engineer''"
  "categories agent_expert_cpp_software_engineer = [''engineering'']"
  "tags agent_expert_cpp_software_engineer = [''cpp'', ''systems'', ''performance'']"
  "relevantProjectTypes agent_expert_cpp_software_engineer = [''library'']"
  "priority agent_expert_cpp_software_engineer = 3"
  by (simp_all add: agent_expert_cpp_software_engineer_def)

lemma agent_expert_dotnet_software_engineer_fields:
  "id_str agent_expert_dotnet_software_engineer = ''expert-dotnet-software-engineer''"
  "categories agent_expert_dotnet_software_engineer = [''engineering'']"
  "tags agent_expert_dotnet_software_engineer = [''dotnet'', ''csharp'', ''aspnet'']"
  "relevantProjectTypes agent_expert_dotnet_software_engineer = [''web-app'', ''api'']"
  "priority agent_expert_dotnet_software_engineer = 2"
  by (simp_all add: agent_expert_dotnet_software_engineer_def)

lemma agent_api_architect_fields:
  "id_str agent_api_architect = ''api-architect''"
  "categories agent_api_architect = [''architecture'', ''backend'']"
  "tags agent_api_architect = [''api'', ''rest'', ''graphql'', ''openapi'']"
  "relevantProjectTypes agent_api_architect = [''api'']"
  "priority agent_api_architect = 1"
  by (simp_all add: agent_api_architect_def)

lemma agent_debug_fields:
  "id_str agent_debug = ''debug''"
  "categories agent_debug = [''debugging'']"
  "tags agent_debug = [''debugging'', ''troubleshooting'', ''root-cause'']"
  "relevantProjectTypes agent_debug = [''*'']"
  "priority agent_debug = 1"
  by (simp_all add: agent_debug_def)

lemma agent_playwright_tester_fields:
  "id_str agent_playwright_tester = ''playwright-tester''"
  "categories agent_playwright_tester = [''testing'']"
  "tags agent_playwright_tester = [''e2e'', ''playwright'', ''browser-testing'']"
  "relevantProjectTypes agent_playwright_tester = [''web-app'']"
  "priority agent_playwright_tester = 2"
  by (simp_all add: agent_playwright_tester_def)

lemma agent_polyglot_test_builder_fields:
  "id_str agent_polyglot_test_builder = ''polyglot-test-builder''"
  "categories agent_polyglot_test_builder = [''testing'']"
  "tags agent_polyglot_test_builder = [''testing'', ''polyglot'', ''multi-language'']"
  "relevantProjectTypes agent_polyglot_test_builder = [''*'']"
  "priority agent_polyglot_test_builder = 2"
  by (simp_all add: agent_polyglot_test_builder_def)

lemma agent_tdd_red_fields:
  "id_str agent_tdd_red = ''tdd-red''"
  "categories agent_tdd_red = [''testing'']"
  "tags agent_tdd_red = [''tdd'', ''red'', ''test-first'']"
  "relevantProjectTypes agent_tdd_red = [''*'']"
  "priority agent_tdd_red = 2"
  by (simp_all add: agent_tdd_red_def)

lemma agent_tdd_green_fields:
  "id_str agent_tdd_green = ''tdd-green''"
  "categories agent_tdd_green = [''testing'']"
  "tags agent_tdd_green = [''tdd'', ''green'', ''implementation'']"
  "relevantProjectTypes agent_tdd_green = [''*'']"
  "priority agent_tdd_green = 2"
  by (simp_all add: agent_tdd_green_def)

lemma agent_tdd_refactor_fields:
  "id_str agent_tdd_refactor = ''tdd-refactor''"
  "categories agent_tdd_refactor = [''testing'']"
  "tags agent_tdd_refactor = [''tdd'', ''refactor'', ''clean-code'']"
  "relevantProjectTypes agent_tdd_refactor = [''*'']"
  "priority agent_tdd_refactor = 2"
  by (simp_all add: agent_tdd_refactor_def)

lemma agent_devops_expert_fields:
  "id_str agent_devops_expert = ''devops-expert''"
  "categories agent_devops_expert = [''devops'']"
  "tags agent_devops_expert = [''devops'', ''cicd'', ''automation'', ''monitoring'', ''dora'']"
  "relevantProjectTypes agent_devops_expert = [''devops'', ''api'', ''web-app'']"
  "priority agent_devops_expert = 1"
  by (simp_all add: agent_devops_expert_def)

lemma agent_platform_sre_kubernetes_fields:
  "id_str agent_platform_sre_kubernetes = ''platform-sre-kubernetes''"
  "categories agent_platform_sre_kubernetes = [''devops'', ''cloud'']"
  "tags agent_platform_sre_kubernetes = [''kubernetes'', ''sre'', ''platform'', ''reliability'']"
  "relevantProjectTypes agent_platform_sre_kubernetes = [''devops'']"
  "priority agent_platform_sre_kubernetes = 2"
  by (simp_all add: agent_platform_sre_kubernetes_def)

lemma agent_github_actions_expert_fields:
  "id_str agent_github_actions_expert = ''github-actions-expert''"
  "categories agent_github_actions_expert = [''devops'']"
  "tags agent_github_actions_expert = [''github-actions'', ''cicd'', ''workflows'']"
  "relevantProjectTypes agent_github_actions_expert = [''*'']"
  "priority agent_github_actions_expert = 2"
  by (simp_all add: agent_github_actions_expert_def)

lemma agent_terraform_fields:
  "id_str agent_terraform = ''terraform''"
  "categories agent_terraform = [''devops'', ''cloud'']"
  "tags agent_terraform = [''terraform'', ''iac'', ''infrastructure'']"
  "relevantProjectTypes agent_terraform = [''devops'']"
  "priority agent_terraform = 2"
  by (simp_all add: agent_terraform_def)

lemma agent_se_technical_writer_fields:
  "id_str agent_se_technical_writer = ''se-technical-writer''"
  "categories agent_se_technical_writer = [''documentation'']"
  "tags agent_se_technical_writer = [''documentation'', ''technical-writing'', ''api-docs'']"
  "relevantProjectTypes agent_se_technical_writer = [''*'']"
  "priority agent_se_technical_writer = 1"
  by (simp_all add: agent_se_technical_writer_def)

lemma agent_gem_documentation_writer_fields:
  "id_str agent_gem_documentation_writer = ''gem-documentation-writer''"
  "categories agent_gem_documentation_writer = [''documentation'']"
  "tags agent_gem_documentation_writer = [''documentation'', ''writing'', ''markdown'']"
  "relevantProjectTypes agent_gem_documentation_writer = [''*'']"
  "priority agent_gem_documentation_writer = 2"
  by (simp_all add: agent_gem_documentation_writer_def)

lemma agent_gem_reviewer_fields:
  "id_str agent_gem_reviewer = ''gem-reviewer''"
  "categories agent_gem_reviewer = [''review'']"
  "tags agent_gem_reviewer = [''code-review'', ''quality'', ''standards'']"
  "relevantProjectTypes agent_gem_reviewer = [''*'']"
  "priority agent_gem_reviewer = 1"
  by (simp_all add: agent_gem_reviewer_def)

lemma agent_se_security_reviewer_fields:
  "id_str agent_se_security_reviewer = ''se-security-reviewer''"
  "categories agent_se_security_reviewer = [''review'', ''security'']"
  "tags agent_se_security_reviewer = [''security'', ''review'', ''vulnerabilities'']"
  "relevantProjectTypes agent_se_security_reviewer = [''*'']"
  "priority agent_se_security_reviewer = 2"
  by (simp_all add: agent_se_security_reviewer_def)

lemma agent_se_system_architecture_reviewer_fields:
  "id_str agent_se_system_architecture_reviewer = ''se-system-architecture-reviewer''"
  "categories agent_se_system_architecture_reviewer = [''review'', ''architecture'']"
  "tags agent_se_system_architecture_reviewer = [''architecture'', ''review'', ''assessment'']"
  "relevantProjectTypes agent_se_system_architecture_reviewer = [''*'']"
  "priority agent_se_system_architecture_reviewer = 2"
  by (simp_all add: agent_se_system_architecture_reviewer_def)

lemma agent_critical_thinking_fields:
  "id_str agent_critical_thinking = ''critical-thinking''"
  "categories agent_critical_thinking = [''review'']"
  "tags agent_critical_thinking = [''critical-thinking'', ''analysis'', ''assumptions'']"
  "relevantProjectTypes agent_critical_thinking = [''*'']"
  "priority agent_critical_thinking = 2"
  by (simp_all add: agent_critical_thinking_def)

lemma agent_devils_advocate_fields:
  "id_str agent_devils_advocate = ''devils-advocate''"
  "categories agent_devils_advocate = [''review'']"
  "tags agent_devils_advocate = [''devils-advocate'', ''challenge'', ''robustness'']"
  "relevantProjectTypes agent_devils_advocate = [''*'']"
  "priority agent_devils_advocate = 3"
  by (simp_all add: agent_devils_advocate_def)

lemma agent_prompt_engineer_fields:
  "id_str agent_prompt_engineer = ''prompt-engineer''"
  "categories agent_prompt_engineer = [''meta'']"
  "tags agent_prompt_engineer = [''prompt-engineering'', ''optimization'', ''llm'']"
  "relevantProjectTypes agent_prompt_engineer = [''*'']"
  "priority agent_prompt_engineer = 2"
  by (simp_all add: agent_prompt_engineer_def)

lemma agent_meta_agentic_project_scaffold_fields:
  "id_str agent_meta_agentic_project_scaffold = ''meta-agentic-project-scaffold''"
  "categories agent_meta_agentic_project_scaffold = [''meta'']"
  "tags agent_meta_agentic_project_scaffold = [''meta'', ''scaffolding'', ''agents'', ''organization'']"
  "relevantProjectTypes agent_meta_agentic_project_scaffold = [''*'']"
  "priority agent_meta_agentic_project_scaffold = 2"
  by (simp_all add: agent_meta_agentic_project_scaffold_def)

lemma agent_custom_agent_foundry_fields:
  "id_str agent_custom_agent_foundry = ''custom-agent-foundry''"
  "categories agent_custom_agent_foundry = [''meta'']"
  "tags agent_custom_agent_foundry = [''agent-creation'', ''customization'', ''meta'']"
  "relevantProjectTypes agent_custom_agent_foundry = [''*'']"
  "priority agent_custom_agent_foundry = 3"
  by (simp_all add: agent_custom_agent_foundry_def)

lemma agent_typescript_mcp_expert_fields:
  "id_str agent_typescript_mcp_expert = ''typescript-mcp-expert''"
  "categories agent_typescript_mcp_expert = [''engineering'', ''backend'']"
  "tags agent_typescript_mcp_expert = [''mcp'', ''typescript'', ''server'']"
  "relevantProjectTypes agent_typescript_mcp_expert = [''api'', ''library'']"
  "priority agent_typescript_mcp_expert = 2"
  by (simp_all add: agent_typescript_mcp_expert_def)

lemma agent_python_mcp_expert_fields:
  "id_str agent_python_mcp_expert = ''python-mcp-expert''"
  "categories agent_python_mcp_expert = [''engineering'', ''backend'']"
  "tags agent_python_mcp_expert = [''mcp'', ''python'', ''server'']"
  "relevantProjectTypes agent_python_mcp_expert = [''api'', ''data-science'']"
  "priority agent_python_mcp_expert = 3"
  by (simp_all add: agent_python_mcp_expert_def)

lemma agent_azure_principal_architect_fields:
  "id_str agent_azure_principal_architect = ''azure-principal-architect''"
  "categories agent_azure_principal_architect = [''cloud'', ''architecture'']"
  "tags agent_azure_principal_architect = [''azure'', ''cloud'', ''architecture'', ''well-architected'']"
  "relevantProjectTypes agent_azure_principal_architect = [''devops'', ''api'', ''web-app'']"
  "priority agent_azure_principal_architect = 2"
  by (simp_all add: agent_azure_principal_architect_def)

lemma agent_ms_sql_dba_fields:
  "id_str agent_ms_sql_dba = ''ms-sql-dba''"
  "categories agent_ms_sql_dba = [''data'']"
  "tags agent_ms_sql_dba = [''sql'', ''database'', ''mssql'', ''dba'']"
  "relevantProjectTypes agent_ms_sql_dba = [''api'', ''data-science'']"
  "priority agent_ms_sql_dba = 3"
  by (simp_all add: agent_ms_sql_dba_def)

lemma agent_postgresql_dba_fields:
  "id_str agent_postgresql_dba = ''postgresql-dba''"
  "categories agent_postgresql_dba = [''data'']"
  "tags agent_postgresql_dba = [''postgresql'', ''database'', ''optimization'']"
  "relevantProjectTypes agent_postgresql_dba = [''api'', ''data-science'']"
  "priority agent_postgresql_dba = 3"
  by (simp_all add: agent_postgresql_dba_def)

lemma agent_electron_angular_native_fields:
  "id_str agent_electron_angular_native = ''electron-angular-native''"
  "categories agent_electron_angular_native = [''frontend'', ''engineering'']"
  "tags agent_electron_angular_native = [''electron'', ''angular'', ''desktop'']"
  "relevantProjectTypes agent_electron_angular_native = [''web-app'']"
  "priority agent_electron_angular_native = 3"
  by (simp_all add: agent_electron_angular_native_def)

lemma agent_dotnet_maui_fields:
  "id_str agent_dotnet_maui = ''dotnet-maui''"
  "categories agent_dotnet_maui = [''mobile'', ''engineering'']"
  "tags agent_dotnet_maui = [''maui'', ''dotnet'', ''mobile'', ''cross-platform'']"
  "relevantProjectTypes agent_dotnet_maui = [''mobile'']"
  "priority agent_dotnet_maui = 2"
  by (simp_all add: agent_dotnet_maui_def)

lemma agent_prd_fields:
  "id_str agent_prd = ''prd''"
  "categories agent_prd = [''planning'', ''documentation'']"
  "tags agent_prd = [''prd'', ''requirements'', ''product'']"
  "relevantProjectTypes agent_prd = [''*'']"
  "priority agent_prd = 2"
  by (simp_all add: agent_prd_def)

lemma agent_specification_fields:
  "id_str agent_specification = ''specification''"
  "categories agent_specification = [''planning'', ''documentation'']"
  "tags agent_specification = [''specification'', ''requirements'', ''technical'']"
  "relevantProjectTypes agent_specification = [''*'']"
  "priority agent_specification = 2"
  by (simp_all add: agent_specification_def)

lemma agent_gem_orchestrator_fields:
  "id_str agent_gem_orchestrator = ''gem-orchestrator''"
  "categories agent_gem_orchestrator = [''meta'']"
  "tags agent_gem_orchestrator = [''orchestrator'', ''workflow'', ''multi-agent'']"
  "relevantProjectTypes agent_gem_orchestrator = [''*'']"
  "priority agent_gem_orchestrator = 2"
  by (simp_all add: agent_gem_orchestrator_def)

lemma agent_gem_implementer_fields:
  "id_str agent_gem_implementer = ''gem-implementer''"
  "categories agent_gem_implementer = [''engineering'']"
  "tags agent_gem_implementer = [''implementation'', ''coding'']"
  "relevantProjectTypes agent_gem_implementer = [''*'']"
  "priority agent_gem_implementer = 2"
  by (simp_all add: agent_gem_implementer_def)

lemma agent_gem_researcher_fields:
  "id_str agent_gem_researcher = ''gem-researcher''"
  "categories agent_gem_researcher = [''planning'']"
  "tags agent_gem_researcher = [''research'', ''analysis'', ''investigation'']"
  "relevantProjectTypes agent_gem_researcher = [''*'']"
  "priority agent_gem_researcher = 2"
  by (simp_all add: agent_gem_researcher_def)

lemma agent_4_1_Beast_fields:
  "id_str agent_4_1_Beast = ''4.1-Beast''"
  "categories agent_4_1_Beast = [''engineering'', ''meta'']"
  "tags agent_4_1_Beast = [''beast-mode'', ''advanced'', ''comprehensive'', ''gpt-4.1'']"
  "relevantProjectTypes agent_4_1_Beast = [''*'']"
  "priority agent_4_1_Beast = 3"
  by (simp_all add: agent_4_1_Beast_def)

lemma agent_mentor_fields:
  "id_str agent_mentor = ''mentor''"
  "categories agent_mentor = [''documentation'']"
  "tags agent_mentor = [''mentor'', ''learning'', ''guidance'', ''education'']"
  "relevantProjectTypes agent_mentor = [''learning'']"
  "priority agent_mentor = 2"
  by (simp_all add: agent_mentor_def)

lemma agent_janitor_fields:
  "id_str agent_janitor = ''janitor''"
  "categories agent_janitor = [''review'']"
  "tags agent_janitor = [''cleanup'', ''maintenance'', ''refactor'']"
  "relevantProjectTypes agent_janitor = [''*'']"
  "priority agent_janitor = 3"
  by (simp_all add: agent_janitor_def)

lemmas agent_fields =
  agent_plan_fields agent_planner_fields agent_task_planner_fields
  agent_context_architect_fields agent_repo_architect_fields agent_arch_fields
  agent_blueprint_mode_fields agent_implementation_plan_fields
  agent_principal_software_engineer_fields agent_software_engineer_agent_v1_fields
  agent_expert_nextjs_developer_fields agent_expert_react_frontend_engineer_fields
  agent_expert_cpp_software_engineer_fields agent_expert_dotnet_software_engineer_fields
  agent_api_architect_fields agent_debug_fields agent_playwright_tester_fields
  agent_polyglot_test_builder_fields agent_tdd_red_fields agent_tdd_green_fields
  agent_tdd_refactor_fields agent_devops_expert_fields
  agent_platform_sre_kubernetes_fields agent_github_actions_expert_fields
  agent_terraform_fields agent_se_technical_writer_fields
  agent_gem_documentation_writer_fields agent_gem_reviewer_fields
  agent_se_security_reviewer_fields agent_se_system_architecture_reviewer_fields
  agent_critical_thinking_fields agent_devils_advocate_fields agent_prompt_engineer_fields
  agent_meta_agentic_project_scaffold_fields agent_custom_agent_foundry_fields
  agent_typescript_mcp_expert_fields agent_python_mcp_expert_fields
  agent_azure_principal_architect_fields agent_ms_sql_dba_fields
  agent_postgresql_dba_fields agent_electron_angular_native_fields
  agent_dotnet_maui_fields agent_prd_fields agent_specification_fields
  agent_gem_orchestrator_fields agent_gem_implementer_fields agent_gem_researcher_fields
  agent_4_1_Beast_fields agent_mentor_fields agent_janitor_fields

lemma skill_copilot_instructions_blueprint_generator_fields:
  "id_str skill_copilot_instructions_blueprint_generator = ''copilot-instructions-blueprint-generator''"
  "categories skill_copilot_instructions_blueprint_generator = [''blueprint'', ''project-setup'']"
  "tags skill_copilot_instructions_blueprint_generator = [''copilot'', ''instructions'', ''blueprint'', ''standards'']"
  "relevantProjectTypes skill_copilot_instructions_blueprint_generator = [''*'']"
  "priority skill_copilot_instructions_blueprint_generator = 1"
  by (simp_all add: skill_copilot_instructions_blueprint_generator_def)

lemma skill_folder_structure_blueprint_generator_fields:
  "id_str skill_folder_structure_blueprint_generator = ''folder-structure-blueprint-generator''"
  "categories skill_folder_structure_blueprint_generator = [''blueprint'', ''project-setup'']"
  "tags skill_folder_structure_blueprint_generator = [''folder-structure'', ''blueprint'', ''visualization'']"
  "relevantProjectTypes skill_folder_structure_blueprint_generator = [''*'']"
  "priority skill_folder_structure_blueprint_generator = 1"
  by (simp_all add: skill_folder_structure_blueprint_generator_def)

lemma skill_technology_stack_blueprint_generator_fields:
  "id_str skill_technology_stack_blueprint_generator = ''technology-stack-blueprint-generator''"
  "categories skill_technology_stack_blueprint_generator = [''blueprint'', ''analysis'']"
  "tags skill_technology_stack_blueprint_generator = [''tech-stack'', ''blueprint'', ''analysis'', ''documentation'']"
  "relevantProjectTypes skill_technology_stack_blueprint_generator = [''*'']"
  "priority skill_technology_stack_blueprint_generator = 1"
  by (simp_all add: skill_technology_stack_blueprint_generator_def)

lemma skill_architecture_blueprint_generator_fields:
  "id_str skill_architecture_blueprint_generator = ''architecture-blueprint-generator''"
  "categories skill_architecture_blueprint_generator = [''blueprint'']"
  "tags skill_architecture_blueprint_generator = [''architecture'', ''blueprint'', ''documentation'']"
  "relevantProjectTypes skill_architecture_blueprint_generator = [''*'']"
  "priority skill_architecture_blueprint_generator = 1"
  by (simp_all add: skill_architecture_blueprint_generator_def)

lemma skill_readme_blueprint_generator_fields:
  "id_str skill_readme_blueprint_generator = ''readme-blueprint-generator''"
  "categories skill_readme_blueprint_generator = [''blueprint'', ''document-gen'']"
  "tags skill_readme_blueprint_generator = [''readme'', ''blueprint'', ''documentation'']"
  "relevantProjectTypes skill_readme_blueprint_generator = [''*'']"
  "priority skill_readme_blueprint_generator = 2"
  by (simp_all add: skill_readme_blueprint_generator_def)

lemma skill_code_exemplars_blueprint_generator_fields:
  "id_str skill_code_exemplars_blueprint_generator = ''code-exemplars-blueprint-generator''"
  "categories skill_code_exemplars_blueprint_generator = [''blueprint'']"
  "tags skill_code_exemplars_blueprint_generator = [''code-examples'', ''blueprint'', ''documentation'']"
  "relevantProjectTypes skill_code_exemplars_blueprint_generator = [''library'']"
  "priority skill_code_exemplars_blueprint_generator = 2"
  by (simp_all add: skill_code_exemplars_blueprint_generator_def)

lemma skill_project_workflow_analysis_blueprint_generator_fields:
  "id_str skill_project_workflow_analysis_blueprint_generator = ''project-workflow-analysis-blueprint-generator''"
  "categories skill_project_workflow_analysis_blueprint_generator = [''blueprint'', ''analysis'']"
  "tags skill_project_workflow_analysis_blueprint_generator = [''workflow'', ''blueprint'', ''analysis'']"
  "relevantProjectTypes skill_project_workflow_analysis_blueprint_generator = [''*'']"
  "priority skill_project_workflow_analysis_blueprint_generator = 2"
  by (simp_all add: skill_project_workflow_analysis_blueprint_generator_def)

lemma skill_create_specification_fields:
  "id_str skill_create_specification = ''create-specification''"
  "categories skill_create_specification = [''document-gen'']"
  "tags skill_create_specification = [''specification'', ''requirements'', ''ai-optimized'']"
  "relevantProjectTypes skill_create_specification = [''*'']"
  "priority skill_create_specification = 1"
  by (simp_all add: skill_create_specification_def)

lemma skill_create_implementation_plan_fields:
  "id_str skill_create_implementation_plan = ''create-implementation-plan''"
  "categories skill_create_implementation_plan = [''document-gen'']"
  "tags skill_create_implementation_plan = [''implementation'', ''planning'', ''tasks'']"
  "relevantProjectTypes skill_create_implementation_plan = [''*'']"
  "priority skill_create_implementation_plan = 1"
  by (simp_all add: skill_create_implementation_plan_def)

lemma skill_create_readme_fields:
  "id_str skill_create_readme = ''create-readme''"
  "categories skill_create_readme = [''document-gen'']"
  "tags skill_create_readme = [''readme'', ''documentation'', ''github'']"
  "relevantProjectTypes skill_create_readme = [''*'']"
  "priority skill_create_readme = 1"
  by (simp_all add: skill_create_readme_def)

lemma skill_create_agentsmd_fields:
  "id_str skill_create_agentsmd = ''create-agentsmd''"
  "categories skill_create_agentsmd = [''document-gen'', ''project-setup'']"
  "tags skill_create_agentsmd = [''agents.md'', ''agent-config'', ''documentation'']"
  "relevantProjectTypes skill_create_agentsmd = [''*'']"
  "priority skill_create_agentsmd = 1"
  by (simp_all add: skill_create_agentsmd_def)

lemma skill_create_architectural_decision_record_fields:
  "id_str skill_create_architectural_decision_record = ''create-architectural-decision-record''"
  "categories skill_create_architectural_decision_record = [''document-gen'']"
  "tags skill_create_architectural_decision_record = [''adr'', ''architecture'', ''decisions'']"
  "relevantProjectTypes skill_create_architectural_decision_record = [''*'']"
  "priority skill_create_architectural_decision_record = 1"
  by (simp_all add: skill_create_architectural_decision_record_def)

lemma skill_create_llms_fields:
  "id_str skill_create_llms = ''create-llms''"
  "categories skill_create_llms = [''document-gen'', ''project-setup'']"
  "tags skill_create_llms = [''llms.txt'', ''ai-context'', ''documentation'']"
  "relevantProjectTypes skill_create_llms = [''*'']"
  "priority skill_create_llms = 2"
  by (simp_all add: skill_create_llms_def)

lemma skill_prd_fields:
  "id_str skill_prd = ''prd''"
  "categories skill_prd = [''document-gen'']"
  "tags skill_prd = [''prd'', ''requirements'', ''product'']"
  "relevantProjectTypes skill_prd = [''web-app'', ''api'', ''mobile'']"
  "priority skill_prd = 2"
  by (simp_all add: skill_prd_def)

lemma skill_conventional_commit_fields:
  "id_str skill_conventional_commit = ''conventional-commit''"
  "categories skill_conventional_commit = [''git'']"
  "tags skill_conventional_commit = [''commit'', ''conventional'', ''git'', ''workflow'']"
  "relevantProjectTypes skill_conventional_commit = [''*'']"
  "priority skill_conventional_commit = 1"
  by (simp_all add: skill_conventional_commit_def)

lemma skill_git_commit_fields:
  "id_str skill_git_commit = ''git-commit''"
  "categories skill_git_commit = [''git'']"
  "tags skill_git_commit = [''commit'', ''git'']"
  "relevantProjectTypes skill_git_commit = [''*'']"
  "priority skill_git_commit = 2"
  by (simp_all add: skill_git_commit_def)

lemma skill_git_flow_branch_creator_fields:
  "id_str skill_git_flow_branch_creator = ''git-flow-branch-creator''"
  "categories skill_git_flow_branch_creator = [''git'']"
  "tags skill_git_flow_branch_creator = [''git-flow'', ''branching'', ''naming'']"
  "relevantProjectTypes skill_git_flow_branch_creator = [''*'']"
  "priority skill_git_flow_branch_creator = 2"
  by (simp_all add: skill_git_flow_branch_creator_def)

lemma skill_generate_custom_instructions_from_codebase_fields:
  "id_str skill_generate_custom_instructions_from_codebase = ''generate-custom-instructions-from-codebase''"
  "categories skill_generate_custom_instructions_from_codebase = [''code-gen'', ''migration'']"
  "tags skill_generate_custom_instructions_from_codebase = [''instructions'', ''migration'', ''evolution'', ''codebase-analysis'']"
  "relevantProjectTypes skill_generate_custom_instructions_from_codebase = [''*'']"
  "priority skill_generate_custom_instructions_from_codebase = 1"
  by (simp_all add: skill_generate_custom_instructions_from_codebase_def)

lemma skill_typescript_mcp_server_generator_fields:
  "id_str skill_typescript_mcp_server_generator = ''typescript-mcp-server-generator''"
  "categories skill_typescript_mcp_server_generator = [''mcp'', ''code-gen'']"
  "tags skill_typescript_mcp_server_generator = [''mcp'', ''typescript'', ''server'', ''scaffolding'']"
  "relevantProjectTypes skill_typescript_mcp_server_generator = [''api'', ''library'']"
  "priority skill_typescript_mcp_server_generator = 2"
  by (simp_all add: skill_typescript_mcp_server_generator_def)

lemma skill_python_mcp_server_generator_fields:
  "id_str skill_python_mcp_server_generator = ''python-mcp-server-generator''"
  "categories skill_python_mcp_server_generator = [''mcp'', ''code-gen'']"
  "tags skill_python_mcp_server_generator = [''mcp'', ''python'', ''server'']"
  "relevantProjectTypes skill_python_mcp_server_generator = [''api'', ''data-science'']"
  "priority skill_python_mcp_server_generator = 3"
  by (simp_all add: skill_python_mcp_server_generator_def)

lemma skill_create_spring_boot_java_project_fields:
  "id_str skill_create_spring_boot_java_project = ''create-spring-boot-java-project''"
  "categories skill_create_spring_boot_java_project = [''code-gen'']"
  "tags skill_create_spring_boot_java_project = [''spring-boot'', ''java'', ''scaffolding'']"
  "relevantProjectTypes skill_create_spring_boot_java_project = [''api'', ''web-app'']"
  "priority skill_create_spring_boot_java_project = 3"
  by (simp_all add: skill_create_spring_boot_java_project_def)

lemma skill_create_spring_boot_kotlin_project_fields:
  "id_str skill_create_spring_boot_kotlin_project = ''create-spring-boot-kotlin-project''"
  "categories skill_create_spring_boot_kotlin_project = [''code-gen'']"
  "tags skill_create_spring_boot_kotlin_project = [''spring-boot'', ''kotlin'', ''scaffolding'']"
  "relevantProjectTypes skill_create_spring_boot_kotlin_project = [''api'']"
  "priority skill_create_spring_boot_kotlin_project = 3"
  by (simp_all add: skill_create_spring_boot_kotlin_project_def)

lemma skill_create_web_form_fields:
  "id_str skill_create_web_form = ''create-web-form''"
  "categories skill_create_web_form = [''code-gen'']"
  "tags skill_create_web_form = [''form'', ''web'', ''components'']"
  "relevantProjectTypes skill_create_web_form = [''web-app'']"
  "priority skill_create_web_form = 3"
  by (simp_all add: skill_create_web_form_def)

lemma skill_playwright_generate_test_fields:
  "id_str skill_playwright_generate_test = ''playwright-generate-test''"
  "categories skill_playwright_generate_test = [''testing'']"
  "tags skill_playwright_generate_test = [''playwright'', ''e2e'', ''test-generation'']"
  "relevantProjectTypes skill_playwright_generate_test = [''web-app'']"
  "priority skill_playwright_generate_test = 2"
  by (simp_all add: skill_playwright_generate_test_def)

lemma skill_polyglot_test_agent_fields:
  "id_str skill_polyglot_test_agent = ''polyglot-test-agent''"
  "categories skill_polyglot_test_agent = [''testing'']"
  "tags skill_polyglot_test_agent = [''testing'', ''polyglot'', ''multi-language'']"
  "relevantProjectTypes skill_polyglot_test_agent = [''*'']"
  "priority skill_polyglot_test_agent = 2"
  by (simp_all add: skill_polyglot_test_agent_def)

lemma skill_pytest_coverage_fields:
  "id_str skill_pytest_coverage = ''pytest-coverage''"
  "categories skill_pytest_coverage = [''testing'']"
  "tags skill_pytest_coverage = [''pytest'', ''coverage'', ''python'']"
  "relevantProjectTypes skill_pytest_coverage = [''api'', ''data-science'']"
  "priority skill_pytest_coverage = 3"
  by (simp_all add: skill_pytest_coverage_def)

lemma skill_webapp_testing_fields:
  "id_str skill_webapp_testing = ''webapp-testing''"
  "categories skill_webapp_testing = [''testing'']"
  "tags skill_webapp_testing = [''testing'', ''web'', ''strategy'']"
  "relevantProjectTypes skill_webapp_testing = [''web-app'']"
  "priority skill_webapp_testing = 2"
  by (simp_all add: skill_webapp_testing_def)

lemma skill_multi_stage_dockerfile_fields:
  "id_str skill_multi_stage_dockerfile = ''multi-stage-dockerfile''"
  "categories skill_multi_stage_dockerfile = [''devops'', ''infrastructure'']"
  "tags skill_multi_stage_dockerfile = [''docker'', ''dockerfile'', ''multi-stage'', ''optimization'']"
  "relevantProjectTypes skill_multi_stage_dockerfile = [''devops'', ''api'', ''web-app'']"
  "priority skill_multi_stage_dockerfile = 2"
  by (simp_all add: skill_multi_stage_dockerfile_def)

lemma skill_devops_rollout_plan_fields:
  "id_str skill_devops_rollout_plan = ''devops-rollout-plan''"
  "categories skill_devops_rollout_plan = [''devops'']"
  "tags skill_devops_rollout_plan = [''deployment'', ''rollout'', ''planning'']"
  "relevantProjectTypes skill_devops_rollout_plan = [''devops'']"
  "priority skill_devops_rollout_plan = 2"
  by (simp_all add: skill_devops_rollout_plan_def)

lemma skill_containerize_aspnetcore_fields:
  "id_str skill_containerize_aspnetcore = ''containerize-aspnetcore''"
  "categories skill_containerize_aspnetcore = [''devops'']"
  "tags skill_containerize_aspnetcore = [''container'', ''docker'', ''aspnet'']"
  "relevantProjectTypes skill_containerize_aspnetcore = [''api'', ''web-app'']"
  "priority skill_containerize_aspnetcore = 3"
  by (simp_all add: skill_containerize_aspnetcore_def)

lemma skill_refactor_fields:
  "id_str skill_refactor = ''refactor''"
  "categories skill_refactor = [''refactor'']"
  "tags skill_refactor = [''refactor'', ''code-quality'', ''improvement'']"
  "relevantProjectTypes skill_refactor = [''*'']"
  "priority skill_refactor = 1"
  by (simp_all add: skill_refactor_def)

lemma skill_refactor_plan_fields:
  "id_str skill_refactor_plan = ''refactor-plan''"
  "categories skill_refactor_plan = [''refactor'']"
  "tags skill_refactor_plan = [''refactor'', ''planning'', ''strategy'']"
  "relevantProjectTypes skill_refactor_plan = [''*'']"
  "priority skill_refactor_plan = 2"
  by (simp_all add: skill_refactor_plan_def)

lemma skill_context_map_fields:
  "id_str skill_context_map = ''context-map''"
  "categories skill_context_map = [''analysis'']"
  "tags skill_context_map = [''context'', ''mapping'', ''understanding'']"
  "relevantProjectTypes skill_context_map = [''*'']"
  "priority skill_context_map = 1"
  by (simp_all add: skill_context_map_def)

lemma skill_what_context_needed_fields:
  "id_str skill_what_context_needed = ''what-context-needed''"
  "categories skill_what_context_needed = [''analysis'']"
  "tags skill_what_context_needed = [''context'', ''analysis'', ''planning'']"
  "relevantProjectTypes skill_what_context_needed = [''*'']"
  "priority skill_what_context_needed = 2"
  by (simp_all add: skill_what_context_needed_def)

lemma skill_prompt_builder_fields:
  "id_str skill_prompt_builder = ''prompt-builder''"
  "categories skill_prompt_builder = [''prompt'']"
  "tags skill_prompt_builder = [''prompt'', ''optimization'', ''engineering'']"
  "relevantProjectTypes skill_prompt_builder = [''*'']"
  "priority skill_prompt_builder = 2"
  by (simp_all add: skill_prompt_builder_def)

lemma skill_boost_prompt_fields:
  "id_str skill_boost_prompt = ''boost-prompt''"
  "categories skill_boost_prompt = [''prompt'']"
  "tags skill_boost_prompt = [''prompt'', ''enhancement'', ''improvement'']"
  "relevantProjectTypes skill_boost_prompt = [''*'']"
  "priority skill_boost_prompt = 3"
  by (simp_all add: skill_boost_prompt_def)

lemma skill_editorconfig_fields:
  "id_str skill_editorconfig = ''editorconfig''"
  "categories skill_editorconfig = [''project-setup'']"
  "tags skill_editorconfig = [''editorconfig'', ''coding-style'', ''consistency'']"
  "relevantProjectTypes skill_editorconfig = [''*'']"
  "priority skill_editorconfig = 1"
  by (simp_all add: skill_editorconfig_def)

lemma skill_create_github_action_workflow_specification_fields:
  "id_str skill_create_github_action_workflow_specification = ''create-github-action-workflow-specification''"
  "categories skill_create_github_action_workflow_specification = [''devops'', ''project-setup'']"
  "tags skill_create_github_action_workflow_specification = [''github-actions'', ''ci'', ''workflow'']"
  "relevantProjectTypes skill_create_github_action_workflow_specification = [''*'']"
  "priority skill_create_github_action_workflow_specification = 2"
  by (simp_all add: skill_create_github_action_workflow_specification_def)

lemma skill_finalize_agent_prompt_fields:
  "id_str skill_finalize_agent_prompt = ''finalize-agent-prompt''"
  "categories skill_finalize_agent_prompt = [''prompt'', ''project-setup'']"
  "tags skill_finalize_agent_prompt = [''agent'', ''prompt'', ''finalization'']"
  "relevantProjectTypes skill_finalize_agent_prompt = [''*'']"
  "priority skill_finalize_agent_prompt = 2"
  by (simp_all add: skill_finalize_agent_prompt_def)

lemma skill_dotnet_upgrade_fields:
  "id_str skill_dotnet_upgrade = ''dotnet-upgrade''"
  "categories skill_dotnet_upgrade = [''migration'']"
  "tags skill_dotnet_upgrade = [''dotnet'', ''upgrade'', ''migration'']"
  "relevantProjectTypes skill_dotnet_upgrade = [''web-app'', ''api'']"
  "priority skill_dotnet_upgrade = 3"
  by (simp_all add: skill_dotnet_upgrade_def)

lemma skill_excalidraw_diagram_generator_fields:
  "id_str skill_excalidraw_diagram_generator = ''excalidraw-diagram-generator''"
  "categories skill_excalidraw_diagram_generator = [''document-gen'']"
  "tags skill_excalidraw_diagram_generator = [''excalidraw'', ''diagrams'', ''visualization'']"
  "relevantProjectTypes skill_excalidraw_diagram_generator = [''*'']"
  "priority skill_excalidraw_diagram_generator = 3"
  by (simp_all add: skill_excalidraw_diagram_generator_def)

lemma skill_aspire_fields:
  "id_str skill_aspire = ''aspire''"
  "categories skill_aspire = [''platform'']"
  "tags skill_aspire = [''aspire'', ''dotnet'', ''cloud-native'']"
  "relevantProjectTypes skill_aspire = [''api'', ''web-app'']"
  "priority skill_aspire = 3"
  by (simp_all add: skill_aspire_def)

lemmas skill_fields =
  skill_copilot_instructions_blueprint_generator_fields
  skill_folder_structure_blueprint_generator_fields
  skill_technology_stack_blueprint_generator_fields
  skill_architecture_blueprint_generator_fields skill_readme_blueprint_generator_fields
  skill_code_exemplars_blueprint_generator_fields
  skill_project_workflow_analysis_blueprint_generator_fields
  skill_create_specification_fields skill_create_implementation_plan_fields
  skill_create_readme_fields skill_create_agentsmd_fields
  skill_create_architectural_decision_record_fields skill_create_llms_fields
  skill_prd_fields skill_conventional_commit_fields skill_git_commit_fields
  skill_git_flow_branch_creator_fields
  skill_generate_custom_instructions_from_codebase_fields
  skill_typescript_mcp_server_generator_fields skill_python_mcp_server_generator_fields
  skill_create_spring_boot_java_project_fields
  skill_create_spring_boot_kotlin_project_fields skill_create_web_form_fields
  skill_playwright_generate_test_fields skill_polyglot_test_agent_fields
  skill_pytest_coverage_fields skill_webapp_testing_fields
  skill_multi_stage_dockerfile_fields skill_devops_rollout_plan_fields
  skill_containerize_aspnetcore_fields skill_refactor_fields skill_refactor_plan_fields
  skill_context_map_fields skill_what_context_needed_fields skill_prompt_builder_fields
  skill_boost_prompt_fields skill_editorconfig_fields
  skill_create_github_action_workflow_specification_fields
  skill_finalize_agent_prompt_fields skill_dotnet_upgrade_fields
  skill_excalidraw_diagram_generator_fields skill_aspire_fields

subsection \<open>Facts about the two catalogs\<close>

lemma length_AGENT_REGISTRY: "length AGENT_REGISTRY = 50"
  by (simp add: AGENT_REGISTRY_def)

lemma length_SKILL_REGISTRY: "length SKILL_REGISTRY = 42"
  by (simp add: SKILL_REGISTRY_def)

lemma agent_priorities: "\<forall>e\<in>set AGENT_REGISTRY. priority e \<in> {1, 2, 3}"
  by (simp add: AGENT_REGISTRY_def agent_fields)

lemma skill_priorities: "\<forall>e\<in>set SKILL_REGISTRY. priority e \<in> {1, 2, 3}"
  by (simp add: SKILL_REGISTRY_def skill_fields)

lemma agent_ids_distinct: "distinct (map id_str AGENT_REGISTRY)"
  by (simp add: AGENT_REGISTRY_def agent_fields)

lemma skill_ids_distinct: "distinct (map id_str SKILL_REGISTRY)"
  by (simp add: SKILL_REGISTRY_def skill_fields)

lemma distinct_AGENT_REGISTRY: "distinct AGENT_REGISTRY"
  using agent_ids_distinct by (simp add: distinct_map)

lemma distinct_SKILL_REGISTRY: "distinct SKILL_REGISTRY"
  using skill_ids_distinct by (simp add: distinct_map)

subsection \<open>The score\<close>

lemma projectTypeStep_eq:
  "projectTypeStep pt e score =
     score + (if ''*'' \<in> set (relevantProjectTypes e) \<or> pt \<in> set (relevantProjectTypes e)
              then 10 else 0)"
  by (simp add: projectTypeStep_def includes_arr_def)

lemma fold_techStep:
  "fold (techStep ul techLower) ks score = score + 5 * int (length (filter (keywordMatches ul techLower) ks))"
  by (induction ks arbitrary: score) (simp_all add: techStep_def)

lemma fold_tagStep:
  "fold (tagStep intentLower) ts score = score + 3 * int (length (filter (includes_str intentLower) ts))"
  by (induction ts arbitrary: score) (simp_all add: tagStep_def)

lemma scoreEntry_sum:
  "scoreEntry ul pt techLower intentLower e =
     (if ''*'' \<in> set (relevantProjectTypes e) \<or> pt \<in> set (relevantProjectTypes e)
      then 10 else 0)
     + 5 * int (length (filter (keywordMatches ul techLower) (techKeywords e)))
     + 3 * int (length (filter (includes_str intentLower) (tags e)))
     + (4 - priority e) * 2"
  by (simp add: scoreEntry_def Let_def projectTypeStep_eq fold_techStep fold_tagStep)

lemma scoreEntry_floor: "(4 - priority e) * 2 \<le> scoreEntry ul pt techLower intentLower e"
  by (simp add: scoreEntry_sum)

lemma scoreEntry_pos:
  assumes "priority e \<in> {1, 2, 3}"
  shows "2 \<le> scoreEntry ul pt techLower intentLower e"
proof -
  have "2 \<le> (4 - priority e) * 2" using assms by auto
  also have "\<dots> \<le> scoreEntry ul pt techLower intentLower e" by (rule scoreEntry_floor)
  finally show ?thesis .
qed


subsection \<open>The ranking\<close>

lemma filter_scored_all:
  assumes "\<forall>e\<in>set registry. priority e \<in> {1, 2, 3}"
  shows "filter (\<lambda>s. 0 < snd s) (map (\<lambda>e. (e, scoreEntry ul pt techLower intentLower e)) registry) =
         map (\<lambda>e. (e, scoreEntry ul pt techLower intentLower e)) registry"
proof -
  have "\<forall>s\<in>set (map (\<lambda>e. (e, scoreEntry ul pt techLower intentLower e)) registry). 0 < snd s"
  proof
    fix s assume "s \<in> set (map (\<lambda>e. (e, scoreEntry ul pt techLower intentLower e)) registry)"
    then obtain e where e: "e \<in> set registry" and s: "s = (e, scoreEntry ul pt techLower intentLower e)" by auto
    from e assms have "2 \<le> scoreEntry ul pt techLower intentLower e" by (intro scoreEntry_pos) blast
    with s show "0 < snd s" by simp
  qed
  then show ?thesis by (simp only: filter_True)
qed

lemma agents_recommend:
  "agents (recommendAgentSkills ul options) =
     rank ul (orDefault (projectType options) ''other'')
       (map (toLowerCase ul) (orDefault (techStack options) []))
       (toLowerCase ul (orDefault (userIntent options) []))
       (orDefault (maxAgents options) 10) AGENT_REGISTRY"
  by (simp add: recommendAgentSkills_def Let_def)

lemma skills_recommend:
  "skills (recommendAgentSkills ul options) =
     rank ul (orDefault (projectType options) ''other'')
       (map (toLowerCase ul) (orDefault (techStack options) []))
       (toLowerCase ul (orDefault (userIntent options) []))
       (orDefault (maxSkills options) 15) SKILL_REGISTRY"
  by (simp add: recommendAgentSkills_def Let_def)

text \<open>When no entry is filtered out, the ranking is a prefix of the sorted registry.\<close>

lemma rank_unfiltered:
  assumes "\<forall>e\<in>set registry. priority e \<in> {1, 2, 3}"
  shows "rank ul pt techLower intentLower n registry =
         map fst (slice0 n (sort_cmp (\<lambda>a b. snd b - snd a)
                    (map (\<lambda>e. (e, scoreEntry ul pt techLower intentLower e)) registry)))"
  by (simp only: rank_def filter_scored_all [OF assms])

lemma length_rank:
  assumes "\<forall>e\<in>set registry. priority e \<in> {1, 2, 3}" and "0 < n"
  shows "int (length (rank ul pt techLower intentLower n registry)) = min (int (length registry)) n"
  by (simp add: rank_unfiltered [OF assms(1)] length_slice0_pos [OF assms(2)] length_sort_cmp)

lemma rank_all:
  assumes "\<forall>e\<in>set registry. priority e \<in> {1, 2, 3}" and "int (length registry) \<le> n"
  shows "set (rank ul pt techLower intentLower n registry) = set registry"
    and "length (rank ul pt techLower intentLower n registry) = length registry"
proof -
  let ?ps = "map (\<lambda>e. (e, scoreEntry ul pt techLower intentLower e)) registry"
  have "slice0 n (sort_cmp (\<lambda>a b. snd b - snd a) ?ps) = sort_cmp (\<lambda>a b. snd b - snd a) ?ps"
    using assms(2) by (intro slice0_all) (simp add: length_sort_cmp)
  then have r: "rank ul pt techLower intentLower n registry = map fst (sort_cmp (\<lambda>a b. snd b - snd a) ?ps)"
    by (simp add: rank_unfiltered [OF assms(1)])
  show "set (rank ul pt techLower intentLower n registry) = set registry"
    by (simp add: r set_sort_cmp image_image)
  show "length (rank ul pt techLower intentLower n registry) = length registry"
    by (simp add: r length_sort_cmp)
qed

text \<open>The ranking selects: it repeats nothing and invents nothing.\<close>

lemma slice0_is_take: "\<exists>k. slice0 n xs = take k xs"
  by (auto simp: slice0_def Let_def)

lemma rank_distinct:
  assumes "distinct registry"
  shows "distinct (rank ul pt techLower intentLower n registry)"
proof -
  let ?ps = "filter (\<lambda>s. 0 < snd s) (map (\<lambda>e. (e, scoreEntry ul pt techLower intentLower e)) registry)"
  let ?sorted = "sort_cmp (\<lambda>a b. snd b - snd a) ?ps"
  have "map fst ?ps = filter (\<lambda>e. 0 < scoreEntry ul pt techLower intentLower e) registry"
    by (induction registry) simp_all
  with assms have "distinct (map fst ?ps)" by simp
  then have d: "distinct (map fst ?sorted)" by (simp only: distinct_map_sort_cmp)
  obtain k where k: "slice0 n ?sorted = take k ?sorted" using slice0_is_take by blast
  have "distinct (take k (map fst ?sorted))" using d by (rule distinct_take)
  then show ?thesis by (simp only: rank_def k take_map)
qed

lemma rank_subset: "set (rank ul pt techLower intentLower n registry) \<subseteq> set registry"
proof -
  let ?ps = "filter (\<lambda>s. 0 < snd s) (map (\<lambda>e. (e, scoreEntry ul pt techLower intentLower e)) registry)"
  let ?sorted = "sort_cmp (\<lambda>a b. snd b - snd a) ?ps"
  obtain k where k: "slice0 n ?sorted = take k ?sorted" using slice0_is_take by blast
  have "set (take k ?sorted) \<subseteq> set ?sorted" by (rule set_take_subset)
  also have "\<dots> = set ?ps" by (rule set_sort_cmp)
  finally have "fst ` set (take k ?sorted) \<subseteq> fst ` set ?ps" by (rule image_mono)
  also have "\<dots> \<subseteq> set registry" by auto
  finally show ?thesis by (simp only: rank_def k set_map)
qed

lemma sorted_wrt_key_cong:
  "\<forall>p\<in>set xs. g p = h p \<Longrightarrow> sorted_wrt (\<lambda>a b. (g b :: int) \<le> g a) xs \<Longrightarrow>
   sorted_wrt (\<lambda>a b. (h b :: int) \<le> h a) xs"
  by (induction xs) auto

text \<open>The ranking is in descending order of score.\<close>

lemma rank_sorted:
  "sorted_wrt (\<lambda>a b. scoreEntry ul pt techLower intentLower b \<le> scoreEntry ul pt techLower intentLower a)
     (rank ul pt techLower intentLower n registry)"
proof -
  let ?sc = "scoreEntry ul pt techLower intentLower"
  let ?ps = "filter (\<lambda>s. 0 < snd s) (map (\<lambda>e. (e, ?sc e)) registry)"
  let ?sorted = "sort_cmp (\<lambda>a b. snd b - snd a) ?ps"
  obtain k where k: "slice0 n ?sorted = take k ?sorted" using slice0_is_take by blast
  have pairs: "\<forall>p\<in>set (take k ?sorted). snd p = ?sc (fst p)"
  proof
    fix p assume "p \<in> set (take k ?sorted)"
    then have "p \<in> set ?sorted" by (rule in_set_takeD)
    then have "p \<in> set ?ps" by (simp only: set_sort_cmp)
    then show "snd p = ?sc (fst p)" by auto
  qed
  have "sorted_wrt (\<lambda>a b. snd b \<le> snd a) ?sorted" by (rule sorted_sort_cmp_score)
  then have "sorted_wrt (\<lambda>a b. snd b \<le> snd a) (take k ?sorted)" by (rule sorted_wrt_take)
  with pairs have "sorted_wrt (\<lambda>a b. ?sc (fst b) \<le> ?sc (fst a)) (take k ?sorted)"
    by (rule sorted_wrt_key_cong)
  then show ?thesis by (simp only: rank_def k sorted_wrt_map)
qed

text \<open>Entries of equal score keep the order the registry declares them in.\<close>

lemma rank_stable:
  assumes "before (rank ul pt techLower intentLower n registry) a b"
    and "scoreEntry ul pt techLower intentLower a = scoreEntry ul pt techLower intentLower b"
  shows "before registry a b"
proof -
  let ?sc = "scoreEntry ul pt techLower intentLower"
  let ?all = "map (\<lambda>e. (e, ?sc e)) registry"
  let ?ps = "filter (\<lambda>s. 0 < snd s) ?all"
  let ?sorted = "sort_cmp (\<lambda>a b. snd b - snd a) ?ps"
  obtain k where k: "slice0 n ?sorted = take k ?sorted" using slice0_is_take by blast
  from assms(1) have "before (map fst (take k ?sorted)) a b" by (simp only: rank_def k)
  from before_mapD [OF this]
  obtain p q where pq: "before (take k ?sorted) p q" and p: "fst p = a" and q: "fst q = b"
    by auto
  from pq have bs: "before ?sorted p q" by (rule before_take)
  then have "p \<in> set ?sorted" and "q \<in> set ?sorted" by (auto dest: before_in_set)
  then have "p \<in> set ?ps" and "q \<in> set ?ps" by (simp_all only: set_sort_cmp)
  then have sp: "snd p = ?sc a" and sq: "snd q = ?sc a" using p q assms(2) by auto
  from bs sp sq have "before (filter (\<lambda>p. snd p = ?sc a) ?sorted) p q"
    by (simp add: before_filter)
  then have "before (filter (\<lambda>p. snd p = ?sc a) ?ps) p q"
    by (simp only: filter_sort_cmp_score)
  then have "before ?ps p q" by (simp add: before_filter)
  then have "before ?all p q" by (simp add: before_filter)
  from before_mapD [OF this]
  obtain a' b' where ab: "before registry a' b'" and "(a', ?sc a') = p" and "(b', ?sc b') = q"
    by auto
  with p q have "a' = a" and "b' = b" by auto
  with ab show ?thesis by simp
qed

lemma rank_stable_iff:
  assumes "distinct registry"
    and "a \<in> set (rank ul pt techLower intentLower n registry)" and "b \<in> set (rank ul pt techLower intentLower n registry)"
    and "scoreEntry ul pt techLower intentLower a = scoreEntry ul pt techLower intentLower b"
  shows "before (rank ul pt techLower intentLower n registry) a b = before registry a b"
proof
  assume "before (rank ul pt techLower intentLower n registry) a b"
  then show "before registry a b" using assms(4) by (rule rank_stable)
next
  assume r: "before registry a b"
  with assms(1) have nba: "\<not> before registry b a" by (rule before_distinct_asym)
  from assms(1) r have "a \<noteq> b" by (auto dest: before_distinct_asym)
  with assms(2,3) have "before (rank ul pt techLower intentLower n registry) a b \<or> before (rank ul pt techLower intentLower n registry) b a"
    by (intro before_total)
  moreover have "\<not> before (rank ul pt techLower intentLower n registry) b a"
    using rank_stable [of ul pt techLower intentLower n registry b a] assms(4) nba by auto
  ultimately show "before (rank ul pt techLower intentLower n registry) a b" by blast
qed

lemma scoreOf_rank_agents:
  "agents (recommendAgentSkills ul options) =
     map fst (slice0 (orDefault (maxAgents options) 10)
       (sort_cmp (\<lambda>a b. snd b - snd a)
         (filter (\<lambda>s. 0 < snd s) (map (\<lambda>e. (e, scoreOf ul options e)) AGENT_REGISTRY))))"
  by (simp only: agents_recommend rank_def scoreOf_def)

lemma scoreOf_rank_skills:
  "skills (recommendAgentSkills ul options) =
     map fst (slice0 (orDefault (maxSkills options) 15)
       (sort_cmp (\<lambda>a b. snd b - snd a)
         (filter (\<lambda>s. 0 < snd s) (map (\<lambda>e. (e, scoreOf ul options e)) SKILL_REGISTRY))))"
  by (simp only: skills_recommend rank_def scoreOf_def)

subsection \<open>Search\<close>

lemma matchesQuery_empty: "matchesQuery ul [] e"
  by (simp add: matchesQuery_def includes_str_empty)

text \<open>The tags and categories of the catalogs are ASCII.\<close>

lemma agent_tags_ascii:
  "\<forall>e\<in>set AGENT_REGISTRY. list_all isAscii (tags e) \<and> list_all isAscii (categories e)"
  by (simp add: AGENT_REGISTRY_def agent_fields isAscii_def)

lemma skill_tags_ascii:
  "\<forall>e\<in>set SKILL_REGISTRY. list_all isAscii (tags e) \<and> list_all isAscii (categories e)"
  by (simp add: SKILL_REGISTRY_def skill_fields isAscii_def)

text \<open>
  What the search matches against an ASCII query mentions the query, when the tags and
  categories of the entry are ASCII.
\<close>

lemma matchesQuery_mentions:
  assumes "isAscii query"
    and "list_all isAscii (tags e)" and "list_all isAscii (categories e)"
    and "matchesQuery ul (toLowerCase ul query) e"
  shows "mentions ul query e"
proof -
  let ?q = "toLowerCase ul query"
  have q: "?q = asciiLower query" using assms(1) by (rule toLowerCase_ascii)
  have low: "sublist ?q (toLowerCase ul t)" if "isAscii t" and "includes_str t ?q" for t
  proof -
    from that(2) have "includes_str (asciiLower t) (asciiLower (asciiLower query))"
      unfolding q by (rule includes_str_asciiLower)
    then show ?thesis
      by (simp add: q asciiLower_idem includes_str_sublist toLowerCase_ascii [OF that(1)])
  qed
  from assms(4) consider
      "includes_str (toLowerCase ul (name e)) ?q"
    | "includes_str (toLowerCase ul (description e)) ?q"
    | "\<exists>t\<in>set (tags e). includes_str t ?q"
    | "\<exists>c\<in>set (categories e). includes_str c ?q"
    by (auto simp: matchesQuery_def some_def list_ex_iff)
  then show ?thesis
  proof cases
    case 1 then show ?thesis by (simp add: mentions_def includes_str_sublist)
  next
    case 2 then show ?thesis by (simp add: mentions_def includes_str_sublist)
  next
    case 3
    then obtain t where "t \<in> set (tags e)" and "includes_str t ?q" by blast
    moreover from this assms(2) have "isAscii t" by (simp add: list_all_iff)
    ultimately have "\<exists>t\<in>set (tags e). sublist ?q (toLowerCase ul t)" using low by blast
    then show ?thesis by (simp add: mentions_def list_ex_iff)
  next
    case 4
    then obtain c where "c \<in> set (categories e)" and "includes_str c ?q" by blast
    moreover from this assms(3) have "isAscii c" by (simp add: list_all_iff)
    ultimately have "\<exists>c\<in>set (categories e). sublist ?q (toLowerCase ul c)" using low by blast
    then show ?thesis by (simp add: mentions_def list_ex_iff)
  qed
qed

lemma search_agents:
  "agents (searchAgentSkills ul query) = filter (matchesQuery ul (toLowerCase ul query)) AGENT_REGISTRY"
  by (simp add: searchAgentSkills_def Let_def)

lemma search_skills:
  "skills (searchAgentSkills ul query) = filter (matchesQuery ul (toLowerCase ul query)) SKILL_REGISTRY"
  by (simp add: searchAgentSkills_def Let_def)

lemma isAscii_docker: "isAscii ''docker''"
  by (simp add: isAscii_def)

lemma toLowerCase_docker: "toLowerCase ul ''docker'' = ''docker''"
  by (simp add: toLowerCase_def isAscii_def asciiLower_def lower_char_def)

lemma dockerfile_matches: "matchesQuery ul ''docker'' skill_multi_stage_dockerfile"
  by (simp add: matchesQuery_def skill_multi_stage_dockerfile_fields some_def)

lemma kubernetes_no_match: "\<not> matchesQuery ul ''docker'' agent_platform_sre_kubernetes"
  by (simp add: matchesQuery_def agent_platform_sre_kubernetes_def some_def toLowerCase_def
        isAscii_def asciiLower_def lower_char_def)

lemma dockerfile_in_registry: "skill_multi_stage_dockerfile \<in> set SKILL_REGISTRY"
  by (simp add: SKILL_REGISTRY_def)

lemma kubernetes_in_registry: "agent_platform_sre_kubernetes \<in> set AGENT_REGISTRY"
  by (simp add: AGENT_REGISTRY_def)

lemma search_docker_mentions:
  assumes "\<forall>e\<in>set registry. list_all isAscii (tags e) \<and> list_all isAscii (categories e)"
  shows "\<forall>e\<in>set (filter (matchesQuery ul (toLowerCase ul ''docker'')) registry).
           mentions ul ''docker'' e"
  using assms by (auto intro!: matchesQuery_mentions isAscii_docker)

subsection \<open>Category index\<close>

lemma set_fold_set_add: "set (fold set_add cs acc) = set acc \<union> set cs"
  by (induction cs arbitrary: acc) (auto simp: set_add_def)

lemma distinct_fold_set_add: "distinct acc \<Longrightarrow> distinct (fold set_add cs acc)"
  by (induction cs arbitrary: acc) (auto simp: set_add_def)

lemma set_fold_categories:
  "set (fold (\<lambda>a cats. fold set_add (categories a) cats) registry acc) =
     set acc \<union> (\<Union>e\<in>set registry. set (categories e))"
  by (induction registry arbitrary: acc) (auto simp: set_fold_set_add)

lemma distinct_fold_categories:
  "distinct acc \<Longrightarrow> distinct (fold (\<lambda>a cats. fold set_add (categories a) cats) registry acc)"
  by (induction registry arbitrary: acc) (simp_all add: distinct_fold_set_add)

lemma set_collectCategories:
  "set (collectCategories registry) = (\<Union>e\<in>set registry. set (categories e))"
  by (simp add: collectCategories_def set_fold_categories)

lemma distinct_collectCategories: "distinct (collectCategories registry)"
  by (simp add: collectCategories_def distinct_fold_categories)

lemma default_cmp_le: "(default_cmp a b \<le> 0) = (a \<le> b)"
  by (auto simp: default_cmp_def)

lemma sorted_insert_default: "sorted ys \<Longrightarrow> sorted (insert_cmp default_cmp x ys)"
  by (induction ys) (auto simp: default_cmp_le set_insert_cmp)

lemma sorted_sort_default: "sorted (sort_cmp default_cmp xs)"
  by (induction xs) (simp_all add: sort_cmp_Cons sort_cmp_Nil sorted_insert_default)

lemma distinct_sort_cmp: "distinct (sort_cmp cmp xs) = distinct xs"
  using distinct_map_sort_cmp [of "\<lambda>x. x" cmp xs] by simp

subsection \<open>The request with an unknown project type\<close>

lemma agent_no_unknown_type:
  "\<forall>e\<in>set AGENT_REGISTRY. ''unknown-type'' \<notin> set (relevantProjectTypes e)"
  by (simp add: AGENT_REGISTRY_def agent_fields)

lemma skill_no_unknown_type:
  "\<forall>e\<in>set SKILL_REGISTRY. ''unknown-type'' \<notin> set (relevantProjectTypes e)"
  by (simp add: SKILL_REGISTRY_def skill_fields)

lemma agent_tags_nonempty: "\<forall>e\<in>set AGENT_REGISTRY. [] \<notin> set (tags e)"
  by (simp add: AGENT_REGISTRY_def agent_fields)

lemma skill_tags_nonempty: "\<forall>e\<in>set SKILL_REGISTRY. [] \<notin> set (tags e)"
  by (simp add: SKILL_REGISTRY_def skill_fields)

lemma unknownType_values:
  "orDefault (projectType unknownTypeRequest) ''other'' = ''unknown-type''"
  "map (toLowerCase ul) (orDefault (techStack unknownTypeRequest) []) = []"
  "toLowerCase ul (orDefault (userIntent unknownTypeRequest) []) = []"
  "orDefault (maxAgents unknownTypeRequest) 10 = 100"
  "orDefault (maxSkills unknownTypeRequest) 15 = 100"
  by (simp_all add: unknownTypeRequest_def orDefault_def toLowerCase_Nil)

lemma score_unknownType:
  assumes "''unknown-type'' \<notin> set (relevantProjectTypes e)" and "[] \<notin> set (tags e)"
  shows "scoreEntry ul ''unknown-type'' [] [] e = wildcardBonus e + priorityBonus e"
proof -
  have "filter (includes_str []) (tags e) = []"
    using assms(2) by (auto simp: filter_empty_conv)
  moreover have "filter (keywordMatches ul []) (techKeywords e) = []"
    by (simp add: keywordMatches_def some_def)
  ultimately show ?thesis
    using assms(1) by (simp add: scoreEntry_sum wildcardBonus_def priorityBonus_def)
qed

lemma unknownType_agents:
  "agents (recommendAgentSkills ul unknownTypeRequest) = rank ul ''unknown-type'' [] [] 100 AGENT_REGISTRY"
  by (simp only: agents_recommend unknownType_values)

lemma unknownType_skills:
  "skills (recommendAgentSkills ul unknownTypeRequest) = rank ul ''unknown-type'' [] [] 100 SKILL_REGISTRY"
  by (simp only: skills_recommend unknownType_values)

lemma unknownType_all_agents:
  "set (rank ul ''unknown-type'' [] [] 100 AGENT_REGISTRY) = set AGENT_REGISTRY"
  "length (rank ul ''unknown-type'' [] [] 100 AGENT_REGISTRY) = length AGENT_REGISTRY"
  by (rule rank_all [OF agent_priorities], simp add: length_AGENT_REGISTRY)+

lemma unknownType_all_skills:
  "set (rank ul ''unknown-type'' [] [] 100 SKILL_REGISTRY) = set SKILL_REGISTRY"
  "length (rank ul ''unknown-type'' [] [] 100 SKILL_REGISTRY) = length SKILL_REGISTRY"
  by (rule rank_all [OF skill_priorities], simp add: length_SKILL_REGISTRY)+

text \<open>
  For a registry whose entries neither name the project type \<open>unknown-type\<close> nor have
  an empty tag, the ranking of all of it is in descending order of wildcard bonus plus
  priority bonus, and entries of equal such sum keep the declared order.
\<close>

lemma unknownType_sorted:
  assumes "\<forall>e\<in>set registry. ''unknown-type'' \<notin> set (relevantProjectTypes e)"
    and "\<forall>e\<in>set registry. [] \<notin> set (tags e)"
  shows "sorted_wrt (\<lambda>a b. wildcardBonus b + priorityBonus b \<le> wildcardBonus a + priorityBonus a)
           (rank ul ''unknown-type'' [] [] n registry)"
proof -
  have "\<forall>e\<in>set (rank ul ''unknown-type'' [] [] n registry).
          scoreEntry ul ''unknown-type'' [] [] e = wildcardBonus e + priorityBonus e"
    using assms rank_subset [of ul "''unknown-type''" "[]" "[]" n registry]
    by (auto intro: score_unknownType)
  then show ?thesis
    using rank_sorted [of ul "''unknown-type''" "[]" "[]" n registry]
    by (rule sorted_wrt_key_cong)
qed

lemma unknownType_stable:
  assumes "\<forall>e\<in>set registry. ''unknown-type'' \<notin> set (relevantProjectTypes e)"
    and "\<forall>e\<in>set registry. [] \<notin> set (tags e)"
    and "before (rank ul ''unknown-type'' [] [] n registry) a b"
    and "wildcardBonus a + priorityBonus a = wildcardBonus b + priorityBonus b"
  shows "before registry a b"
proof -
  from assms(3) have "a \<in> set (rank ul ''unknown-type'' [] [] n registry)"
    and "b \<in> set (rank ul ''unknown-type'' [] [] n registry)"
    by (auto dest: before_in_set)
  then have "a \<in> set registry" and "b \<in> set registry"
    using rank_subset [of ul "''unknown-type''" "[]" "[]" n registry] by auto
  then have "scoreEntry ul ''unknown-type'' [] [] a = wildcardBonus a + priorityBonus a"
    and "scoreEntry ul ''unknown-type'' [] [] b = wildcardBonus b + priorityBonus b"
    using assms(1,2) by (auto intro: score_unknownType)
  with assms(4) have "scoreEntry ul ''unknown-type'' [] [] a = scoreEntry ul ''unknown-type'' [] [] b"
    by simp
  with assms(3) show ?thesis by (rule rank_stable)
qed

text \<open>A strictly higher score puts an entry in front.\<close>

lemma rank_higher_first:
  assumes "a \<in> set (rank ul pt techLower intentLower n registry)"
    and "b \<in> set (rank ul pt techLower intentLower n registry)"
    and "scoreEntry ul pt techLower intentLower b < scoreEntry ul pt techLower intentLower a"
  shows "before (rank ul pt techLower intentLower n registry) a b"
proof -
  from assms(3) have "a \<noteq> b" by auto
  with assms(1,2) have "before (rank ul pt techLower intentLower n registry) a b
      \<or> before (rank ul pt techLower intentLower n registry) b a"
    by (intro before_total)
  moreover have "\<not> before (rank ul pt techLower intentLower n registry) b a"
  proof
    assume "before (rank ul pt techLower intentLower n registry) b a"
    with rank_sorted [of ul pt techLower intentLower n registry]
    have "scoreEntry ul pt techLower intentLower a \<le> scoreEntry ul pt techLower intentLower b"
      by (rule before_sorted_wrt)
    with assms(3) show False by simp
  qed
  ultimately show ?thesis by blast
qed

lemma task_planner_before_arch:
  "before (rank ul ''unknown-type'' [] [] 100 AGENT_REGISTRY) agent_task_planner agent_arch"
proof (rule rank_higher_first)
  show "agent_task_planner \<in> set (rank ul ''unknown-type'' [] [] 100 AGENT_REGISTRY)"
    by (simp only: unknownType_all_agents) (simp add: AGENT_REGISTRY_def)
  show "agent_arch \<in> set (rank ul ''unknown-type'' [] [] 100 AGENT_REGISTRY)"
    by (simp only: unknownType_all_agents) (simp add: AGENT_REGISTRY_def)
  have "scoreEntry ul ''unknown-type'' [] [] agent_arch = 6"
    by (subst score_unknownType)
       (simp_all add: agent_arch_fields wildcardBonus_def priorityBonus_def)
  moreover have "scoreEntry ul ''unknown-type'' [] [] agent_task_planner = 14"
    by (subst score_unknownType)
       (simp_all add: agent_task_planner_fields wildcardBonus_def priorityBonus_def)
  ultimately show "scoreEntry ul ''unknown-type'' [] [] agent_arch
      < scoreEntry ul ''unknown-type'' [] [] agent_task_planner"
    by simp
qed

subsection \<open>Evaluation of characters, keyword matching as a function\<close>





section \<open>The claims\<close>

text \<open>
  In every statement \<open>unicodeLower\<close> is arbitrary: the statement holds whatever the
  runtime's conversion of non-ASCII strings is. The closed instances take
  \<open>asciiLower\<close> for it; their requests and the catalog fields they read are ASCII, so
  that the choice plays no part. One instance of C6 takes \<open>kelvinLower\<close>, to follow a
  stack item that is not ASCII.
\<close>

text \<open>
  C1. For a request whose caps are positive integers, the filter \<open>score > 0\<close> of the
  ranker removes no pair, and so the agents list has length
  \<open>min |AGENT_REGISTRY| maxAgents\<close> and the skills list has length
  \<open>min |SKILL_REGISTRY| maxSkills\<close>. An absent cap stands for its default.
\<close>

theorem C1_filter_keeps_every_entry:
  assumes "0 < orDefault (maxAgents options) 10" and "0 < orDefault (maxSkills options) 15"
  shows "filter (\<lambda>s. 0 < snd s) (map (\<lambda>e. (e, scoreOf unicodeLower options e)) AGENT_REGISTRY) =
           map (\<lambda>e. (e, scoreOf unicodeLower options e)) AGENT_REGISTRY
       \<and> filter (\<lambda>s. 0 < snd s) (map (\<lambda>e. (e, scoreOf unicodeLower options e)) SKILL_REGISTRY) =
           map (\<lambda>e. (e, scoreOf unicodeLower options e)) SKILL_REGISTRY
       \<and> int (length (agents (recommendAgentSkills unicodeLower options))) =
           min (int (length AGENT_REGISTRY)) (orDefault (maxAgents options) 10)
       \<and> int (length (skills (recommendAgentSkills unicodeLower options))) =
           min (int (length SKILL_REGISTRY)) (orDefault (maxSkills options) 15)"
proof (intro conjI)
  show "filter (\<lambda>s. 0 < snd s) (map (\<lambda>e. (e, scoreOf unicodeLower options e)) AGENT_REGISTRY) =
          map (\<lambda>e. (e, scoreOf unicodeLower options e)) AGENT_REGISTRY"
    unfolding scoreOf_def by (rule filter_scored_all [OF agent_priorities])
  show "filter (\<lambda>s. 0 < snd s) (map (\<lambda>e. (e, scoreOf unicodeLower options e)) SKILL_REGISTRY) =
          map (\<lambda>e. (e, scoreOf unicodeLower options e)) SKILL_REGISTRY"
    unfolding scoreOf_def by (rule filter_scored_all [OF skill_priorities])
  show "int (length (agents (recommendAgentSkills unicodeLower options))) =
          min (int (length AGENT_REGISTRY)) (orDefault (maxAgents options) 10)"
    unfolding agents_recommend by (rule length_rank [OF agent_priorities assms(1)])
  show "int (length (skills (recommendAgentSkills unicodeLower options))) =
          min (int (length SKILL_REGISTRY)) (orDefault (maxSkills options) 15)"
    unfolding skills_recommend by (rule length_rank [OF skill_priorities assms(2)])
qed

theorem C1_witness:
  "0 < orDefault (maxAgents frontendRequest) 10 \<and> 0 < orDefault (maxSkills frontendRequest) 15
   \<and> length (agents (recommendAgentSkills asciiLower frontendRequest)) = 1
   \<and> length (skills (recommendAgentSkills asciiLower frontendRequest)) = 3"
proof -
  have a: "0 < orDefault (maxAgents frontendRequest) 10"
    by (simp add: frontendRequest_def orDefault_def)
  have s: "0 < orDefault (maxSkills frontendRequest) 15"
    by (simp add: frontendRequest_def orDefault_def)
  have ma: "orDefault (maxAgents frontendRequest) 10 = 1"
    by (simp add: frontendRequest_def orDefault_def)
  have ms: "orDefault (maxSkills frontendRequest) 15 = 3"
    by (simp add: frontendRequest_def orDefault_def)
  from C1_filter_keeps_every_entry [OF a s, of asciiLower]
  have "int (length (agents (recommendAgentSkills asciiLower frontendRequest))) = 1"
    and "int (length (skills (recommendAgentSkills asciiLower frontendRequest))) = 3"
    by (simp_all add: ma ms length_AGENT_REGISTRY length_SKILL_REGISTRY)
  with a s show ?thesis by simp
qed

text \<open>
  C2. The score of an entry is never below its priority bonus \<open>(4 - priority) * 2\<close>,
  whatever the request. Every entry of the two catalogs has a priority of 1, 2 or 3,
  so its score is at least 2, even where no other signal contributes.
\<close>

theorem C2_priority_floor:
  "(4 - priority e) * 2 \<le> scoreEntry unicodeLower projectType' techLower intentLower e
   \<and> (a \<in> set AGENT_REGISTRY \<longrightarrow>
        priority a \<in> {1, 2, 3} \<and> 2 \<le> scoreEntry unicodeLower projectType' techLower intentLower a)
   \<and> (s \<in> set SKILL_REGISTRY \<longrightarrow>
        priority s \<in> {1, 2, 3} \<and> 2 \<le> scoreEntry unicodeLower projectType' techLower intentLower s)"
  using agent_priorities skill_priorities
  by (simp only: scoreEntry_floor simp_thms) (blast intro: scoreEntry_pos)

theorem C2_witness:
  "agent_plan \<in> set AGENT_REGISTRY \<and> skill_aspire \<in> set SKILL_REGISTRY
   \<and> 2 \<le> scoreEntry asciiLower ''unknown-type'' [] [] agent_plan
   \<and> 2 \<le> scoreEntry asciiLower ''unknown-type'' [] [] skill_aspire"
proof -
  have a: "agent_plan \<in> set AGENT_REGISTRY" by (simp add: AGENT_REGISTRY_def)
  have s: "skill_aspire \<in> set SKILL_REGISTRY" by (simp add: SKILL_REGISTRY_def)
  from a s C2_priority_floor [of agent_plan asciiLower "''unknown-type''" "[]" "[]" agent_plan
      skill_aspire]
  show ?thesis by simp
qed

text \<open>
  C3. The ranking is stable. Two entries that a request scores alike stand in the
  returned list in the order the catalog declares them in.
\<close>

theorem C3_ranking_stable:
  "(a \<in> set (agents (recommendAgentSkills unicodeLower options)) \<and>
    b \<in> set (agents (recommendAgentSkills unicodeLower options)) \<and>
    scoreOf unicodeLower options a = scoreOf unicodeLower options b \<longrightarrow>
      before (agents (recommendAgentSkills unicodeLower options)) a b = before AGENT_REGISTRY a b)
   \<and> (s \<in> set (skills (recommendAgentSkills unicodeLower options)) \<and>
    t \<in> set (skills (recommendAgentSkills unicodeLower options)) \<and>
    scoreOf unicodeLower options s = scoreOf unicodeLower options t \<longrightarrow>
      before (skills (recommendAgentSkills unicodeLower options)) s t = before SKILL_REGISTRY s t)"
  unfolding agents_recommend skills_recommend scoreOf_def
  using rank_stable_iff [OF distinct_AGENT_REGISTRY] rank_stable_iff [OF distinct_SKILL_REGISTRY]
  by blast

theorem C3_witness:
  "agent_plan \<in> set (agents (recommendAgentSkills asciiLower unknownTypeRequest))
   \<and> agent_planner \<in> set (agents (recommendAgentSkills asciiLower unknownTypeRequest))
   \<and> scoreOf asciiLower unknownTypeRequest agent_plan = scoreOf asciiLower unknownTypeRequest agent_planner
   \<and> before AGENT_REGISTRY agent_plan agent_planner
   \<and> before (agents (recommendAgentSkills asciiLower unknownTypeRequest)) agent_plan agent_planner"
proof -
  have a: "agent_plan \<in> set (agents (recommendAgentSkills asciiLower unknownTypeRequest))"
    by (simp only: unknownType_agents unknownType_all_agents) (simp add: AGENT_REGISTRY_def)
  have b: "agent_planner \<in> set (agents (recommendAgentSkills asciiLower unknownTypeRequest))"
    by (simp only: unknownType_agents unknownType_all_agents) (simp add: AGENT_REGISTRY_def)
  have "scoreEntry asciiLower ''unknown-type'' [] [] agent_plan = 16"
    by (subst score_unknownType)
       (simp_all add: agent_plan_fields wildcardBonus_def priorityBonus_def)
  moreover have "scoreEntry asciiLower ''unknown-type'' [] [] agent_planner = 16"
    by (subst score_unknownType)
       (simp_all add: agent_planner_fields wildcardBonus_def priorityBonus_def)
  ultimately have s: "scoreOf asciiLower unknownTypeRequest agent_plan = scoreOf asciiLower unknownTypeRequest agent_planner"
    by (simp only: scoreOf_def unknownType_values)
  have r: "before AGENT_REGISTRY agent_plan agent_planner"
    by (simp add: AGENT_REGISTRY_def)
  from C3_ranking_stable [where a = agent_plan and b = agent_planner and unicodeLower = asciiLower
      and options = unknownTypeRequest] a b s r
  show ?thesis by blast
qed

text \<open>
  C4, as amended. The request with the project type \<open>unknown-type\<close>, no tech stack, an
  empty intent and caps of 100 is answered with every entry of both catalogs, each
  once. Each list is in descending order of the sum of the wildcard bonus (10 for an
  entry whose \<open>relevantProjectTypes\<close> holds \<open>*\<close>) and the priority bonus
  \<open>(4 - priority) * 2\<close>, and entries of equal sum stand in declaration order.
\<close>

theorem C4_unknown_type_order:
  "set (agents (recommendAgentSkills unicodeLower unknownTypeRequest)) = set AGENT_REGISTRY
   \<and> distinct (agents (recommendAgentSkills unicodeLower unknownTypeRequest))
   \<and> sorted_wrt (\<lambda>a b. wildcardBonus b + priorityBonus b \<le> wildcardBonus a + priorityBonus a)
         (agents (recommendAgentSkills unicodeLower unknownTypeRequest))
   \<and> (before (agents (recommendAgentSkills unicodeLower unknownTypeRequest)) a b \<and>
       wildcardBonus a + priorityBonus a = wildcardBonus b + priorityBonus b \<longrightarrow>
         before AGENT_REGISTRY a b)
   \<and> set (skills (recommendAgentSkills unicodeLower unknownTypeRequest)) = set SKILL_REGISTRY
   \<and> distinct (skills (recommendAgentSkills unicodeLower unknownTypeRequest))
   \<and> sorted_wrt (\<lambda>a b. wildcardBonus b + priorityBonus b \<le> wildcardBonus a + priorityBonus a)
         (skills (recommendAgentSkills unicodeLower unknownTypeRequest))
   \<and> (before (skills (recommendAgentSkills unicodeLower unknownTypeRequest)) s t \<and>
       wildcardBonus s + priorityBonus s = wildcardBonus t + priorityBonus t \<longrightarrow>
         before SKILL_REGISTRY s t)"
  unfolding unknownType_agents unknownType_skills
  using unknownType_stable [OF agent_no_unknown_type agent_tags_nonempty]
    unknownType_stable [OF skill_no_unknown_type skill_tags_nonempty]
  by (intro conjI unknownType_all_agents(1) unknownType_all_skills(1)
        rank_distinct distinct_AGENT_REGISTRY distinct_SKILL_REGISTRY
        unknownType_sorted [OF agent_no_unknown_type agent_tags_nonempty]
        unknownType_sorted [OF skill_no_unknown_type skill_tags_nonempty]) blast+

theorem C4_witness:
  "before (agents (recommendAgentSkills asciiLower unknownTypeRequest)) agent_task_planner agent_arch
   \<and> wildcardBonus agent_task_planner + priorityBonus agent_task_planner = 14
   \<and> wildcardBonus agent_arch + priorityBonus agent_arch = 6
   \<and> before (agents (recommendAgentSkills asciiLower unknownTypeRequest)) agent_plan agent_planner
   \<and> wildcardBonus agent_plan + priorityBonus agent_plan
       = wildcardBonus agent_planner + priorityBonus agent_planner
   \<and> before AGENT_REGISTRY agent_plan agent_planner"
proof -
  have k: "wildcardBonus agent_plan + priorityBonus agent_plan
       = wildcardBonus agent_planner + priorityBonus agent_planner"
    by (simp add: agent_plan_fields agent_planner_fields wildcardBonus_def priorityBonus_def)
  have "scoreEntry asciiLower ''unknown-type'' [] [] agent_plan = scoreEntry asciiLower ''unknown-type'' [] [] agent_planner"
    by (subst (1 2) score_unknownType)
       (simp_all add: agent_plan_fields agent_planner_fields wildcardBonus_def priorityBonus_def)
  moreover have "agent_plan \<in> set (rank asciiLower ''unknown-type'' [] [] 100 AGENT_REGISTRY)"
    and "agent_planner \<in> set (rank asciiLower ''unknown-type'' [] [] 100 AGENT_REGISTRY)"
    by (simp_all only: unknownType_all_agents) (simp_all add: AGENT_REGISTRY_def)
  moreover have "before AGENT_REGISTRY agent_plan agent_planner"
    by (simp add: AGENT_REGISTRY_def)
  ultimately have p: "before (agents (recommendAgentSkills asciiLower unknownTypeRequest)) agent_plan agent_planner"
    by (simp only: unknownType_agents rank_stable_iff [OF distinct_AGENT_REGISTRY])
  have "wildcardBonus agent_task_planner + priorityBonus agent_task_planner = 14"
    and "wildcardBonus agent_arch + priorityBonus agent_arch = 6"
    by (simp_all add: agent_task_planner_fields agent_arch_fields wildcardBonus_def priorityBonus_def)
  moreover have "before (agents (recommendAgentSkills asciiLower unknownTypeRequest)) agent_task_planner agent_arch"
    by (simp only: unknownType_agents task_planner_before_arch)
  ultimately show ?thesis
    using C4_unknown_type_order [where a = agent_plan and b = agent_planner
        and unicodeLower = asciiLower] p k by blast
qed

text \<open>
  C4 as the specification states it fails: in the agents list of that request
  \<open>task-planner\<close> (priority 2, wildcard) stands in front of \<open>arch\<close> (priority 1,
  four named project types), although its priority bonus is the smaller one. The
  request has no stack item and an empty intent, so nothing but the empty string is
  lower-cased.
\<close>

theorem C4_counterexample:
  "before (agents (recommendAgentSkills asciiLower unknownTypeRequest)) agent_task_planner agent_arch
   \<and> priorityBonus agent_task_planner < priorityBonus agent_arch"
  by (simp only: unknownType_agents task_planner_before_arch)
     (simp add: priorityBonus_def agent_task_planner_fields agent_arch_fields)

text \<open>
  C5, as amended. \<open>searchAgentSkills\<close> on \<open>docker\<close> returns the skill
  \<open>multi-stage-dockerfile\<close> and does not return the agent \<open>platform-sre-kubernetes\<close>:
  the search reads names, descriptions, tags and categories, and that agent has Docker
  in its \<open>techKeywords\<close> only. Every entry returned mentions \<open>docker\<close>, ignoring case, in
  its name, its description, a tag or a category.
\<close>

theorem C5_search_docker:
  "skill_multi_stage_dockerfile \<in> set (skills (searchAgentSkills unicodeLower ''docker''))
   \<and> agent_platform_sre_kubernetes \<notin> set (agents (searchAgentSkills unicodeLower ''docker''))
   \<and> (\<forall>e\<in>set (agents (searchAgentSkills unicodeLower ''docker'')).
         mentions unicodeLower ''docker'' e)
   \<and> (\<forall>e\<in>set (skills (searchAgentSkills unicodeLower ''docker'')).
         mentions unicodeLower ''docker'' e)"
proof (intro conjI)
  show "skill_multi_stage_dockerfile \<in> set (skills (searchAgentSkills unicodeLower ''docker''))"
    using dockerfile_matches dockerfile_in_registry
    by (simp only: search_skills toLowerCase_docker set_filter mem_Collect_eq simp_thms)
  show "agent_platform_sre_kubernetes \<notin> set (agents (searchAgentSkills unicodeLower ''docker''))"
    using kubernetes_no_match
    by (simp only: search_agents toLowerCase_docker set_filter mem_Collect_eq simp_thms)
  show "\<forall>e\<in>set (agents (searchAgentSkills unicodeLower ''docker'')).
          mentions unicodeLower ''docker'' e"
    unfolding search_agents by (rule search_docker_mentions [OF agent_tags_ascii])
  show "\<forall>e\<in>set (skills (searchAgentSkills unicodeLower ''docker'')).
          mentions unicodeLower ''docker'' e"
    unfolding search_skills by (rule search_docker_mentions [OF skill_tags_ascii])
qed

theorem C5_witness:
  "skill_multi_stage_dockerfile \<in> set (skills (searchAgentSkills asciiLower ''docker''))
   \<and> mentions asciiLower ''docker'' skill_multi_stage_dockerfile"
  using C5_search_docker [of asciiLower] by blast

text \<open>
  C5 as the specification states it fails: the agent \<open>platform-sre-kubernetes\<close> is in
  the registry and is not among the agents the search for \<open>docker\<close> returns.
\<close>

theorem C5_counterexample:
  "agent_platform_sre_kubernetes \<in> set AGENT_REGISTRY
   \<and> id_str agent_platform_sre_kubernetes = ''platform-sre-kubernetes''
   \<and> agent_platform_sre_kubernetes \<notin> set (agents (searchAgentSkills asciiLower ''docker''))"
  using kubernetes_no_match [of asciiLower] kubernetes_in_registry
  by (simp add: search_agents toLowerCase_docker agent_platform_sre_kubernetes_fields)



text \<open>
  C7. An entry whose \<open>relevantProjectTypes\<close> holds the wildcard \<open>*\<close> gets the
  project-type bonus of 10 for every project type of the request.
\<close>

theorem C7_wildcard_bonus:
  assumes "includes_arr (relevantProjectTypes e) ''*''"
  shows "projectTypeStep projectType' e score = score + 10
       \<and> scoreEntry unicodeLower projectType' techLower intentLower e =
           10 + 5 * int (length (filter (keywordMatches unicodeLower techLower) (techKeywords e)))
              + 3 * int (length (filter (includes_str intentLower) (tags e)))
              + (4 - priority e) * 2"
  using assms by (simp add: projectTypeStep_eq scoreEntry_sum includes_arr_def)

theorem C7_witness:
  "includes_arr (relevantProjectTypes agent_plan) ''*''
   \<and> projectTypeStep ''unknown-type'' agent_plan 0 = 10"
proof -
  have w: "includes_arr (relevantProjectTypes agent_plan) ''*''"
    by (simp add: includes_arr_def agent_plan_fields)
  from C7_wildcard_bonus [OF w, of "''unknown-type''" 0 asciiLower "[]" "[]"] w
  show ?thesis by simp
qed

text \<open>
  C8. The empty query matches every entry: \<open>searchAgentSkills\<close> returns both
  catalogs whole, in declaration order.
\<close>

theorem C8_empty_query:
  "searchAgentSkills unicodeLower [] = \<lparr> agents = AGENT_REGISTRY, skills = SKILL_REGISTRY \<rparr>"
  by (simp add: searchAgentSkills_def toLowerCase_Nil matchesQuery_empty)

text \<open>
  C9. Each list of \<open>listCategories\<close> has no category twice, is in lexicographic
  order, and holds exactly the categories of the entries of its catalog.
\<close>

theorem C9_listCategories:
  "distinct (agentCategories listCategories)
   \<and> sorted (agentCategories listCategories)
   \<and> set (agentCategories listCategories) = (\<Union>e\<in>set AGENT_REGISTRY. set (categories e))
   \<and> distinct (skillCategories listCategories)
   \<and> sorted (skillCategories listCategories)
   \<and> set (skillCategories listCategories) = (\<Union>e\<in>set SKILL_REGISTRY. set (categories e))"
  by (simp add: listCategories_def distinct_sort_cmp distinct_collectCategories
        sorted_sort_default set_sort_cmp set_collectCategories)

text \<open>
  C10. Both lists \<open>recommendAgentSkills\<close> returns are selections from the catalogs:
  no entry occurs twice, and every entry is one of the registry.
\<close>

theorem C10_selection_from_catalog:
  "distinct (agents (recommendAgentSkills unicodeLower options))
   \<and> set (agents (recommendAgentSkills unicodeLower options)) \<subseteq> set AGENT_REGISTRY
   \<and> distinct (skills (recommendAgentSkills unicodeLower options))
   \<and> set (skills (recommendAgentSkills unicodeLower options)) \<subseteq> set SKILL_REGISTRY"
  unfolding agents_recommend skills_recommend
  by (intro conjI rank_distinct rank_subset distinct_AGENT_REGISTRY distinct_SKILL_REGISTRY)

end
